theory Spec2Isabelle
  imports Complex_Main
begin

section \<open>The interview agent: data model\<close>

text \<open>
  A shallow embedding of the Python module that defines \<open>InterviewAgent\<close> (the LiveKit
  interview agent).  Wall-clock instants (\<open>datetime\<close>) are integers counting microseconds,
  the resolution of \<open>datetime\<close>; a \<open>timedelta\<close> is a difference of two instants.
  The text of a candidate's response is a list of Unicode code points, because
  \<open>_evaluate_response\<close> inspects it with \<open>str.strip()\<close>; every other Python string is
  only stored or passed on and is a \<open>string\<close>.
\<close>

type_synonym time = int
type_synonym py_str = "nat list"

datatype InterviewState =
  INITIALIZING | GREETING | QUESTIONING | EVALUATING | CONCLUDING | COMPLETED | ERROR

text \<open>The dictionary \<open>question_record\<close> built in \<open>_ask_next_question\<close>.\<close>

record question_record =
  q_question :: string
  q_type :: string
  q_difficulty :: string
  q_timestamp :: time
  q_index :: int

text \<open>The dictionary \<open>response_record\<close> built in \<open>_evaluate_response\<close>.\<close>

record response_record =
  r_response :: py_str
  r_question_index :: int
  r_timestamp :: time
  r_question_type :: string

text \<open>The dataclass \<open>InterviewProgress\<close>; \<open>__post_init__\<close> replaces the two \<open>None\<close>
  lists by empty lists, so the lists are never \<open>None\<close>.\<close>

record InterviewProgress =
  current_question_index :: int
  questions_asked :: "question_record list"
  responses_received :: "response_record list"
  start_time :: "time option"
  last_activity :: "time option"
  state :: InterviewState

definition new_progress :: InterviewProgress where
  "new_progress =
     \<lparr>current_question_index = 0, questions_asked = [], responses_received = [],
      start_time = None, last_activity = None, state = INITIALIZING\<rparr>"

text \<open>
  The session configuration \<open>interview_config\<close> is a dictionary read with
  \<open>config.get(key, default)\<close>: a key that is absent is \<open>None\<close> here.
\<close>

record interview_config =
  cfg_max_questions :: "int option"
  cfg_min_questions :: "int option"
  cfg_duration :: "int option"
  cfg_target_role :: "string option"
  cfg_experience_level :: "string option"

text \<open>The payload of the response evaluator; the agent never looks inside it.\<close>

record evaluation =
  ev_score :: int
  ev_strengths :: "string list"
  ev_weaknesses :: "string list"

text \<open>The dictionary returned by \<open>generate_final_feedback\<close>, read with \<open>.get\<close>.\<close>

record final_feedback =
  ff_overall_rating :: "string option"
  ff_strengths :: "string list option"
  ff_improvements :: "string list option"

text \<open>
  An instance of a subclass of \<open>Exception\<close>: the name of its class and its message.
  These are the exceptions that the \<open>except Exception\<close> clauses of the agent catch.
\<close>

datatype exn = Exn string string

text \<open>The dictionary \<open>progress_data\<close> of \<open>_save_interview_progress\<close>.\<close>

record snapshot =
  snap_current_question_index :: int
  snap_questions_asked :: "question_record list"
  snap_responses_received :: "response_record list"
  snap_state :: InterviewState
  snap_start_time :: "time option"
  snap_last_activity :: "time option"
  snap_updated_at :: time

text \<open>
  The second argument of \<open>_update_interview_status\<close>: the final feedback, the statistics
  of an early exit (reason, questions completed, responses completed, duration in
  minutes), the description of an error (type, message, timestamp), or the empty
  dictionary that \<open>data or {}\<close> puts in place of \<open>None\<close>.
\<close>

datatype status_data =
    EmptyDict
  | FinalFeedbackData final_feedback
  | EarlyExitData string nat nat int
  | ErrorData string string time

text \<open>The calls the agent issues on \<open>InterviewService\<close>, each with the session id.\<close>

datatype store_call =
    StartSession string
  | CompleteSession string status_data
  | SaveProgress string snapshot

text \<open>The instructions the monitor hands to \<open>session.generate_reply\<close>.\<close>

datatype monitor_request = TimeoutReached | CandidateInactive

text \<open>
  The coroutine \<open>entrypoint\<close>: not yet called, suspended in the monitor loop's
  \<open>asyncio.sleep(30)\<close> (with the \<open>start_time\<close> the loop captured), returned, or left
  through its \<open>except\<close> clause, which re-raises.
\<close>

datatype entrypoint_status = NotCalled | MonitorSleeping time | Returned | Raised exn

text \<open>
  The object \<open>InterviewAgent\<close>.  Beside its attributes the record keeps what the agent
  did to the outside world: the calls issued on the interview service, in order, each
  with its outcome, \<open>None\<close> when the call returned and the exception when it raised
  (\<open>store_calls\<close>), the requests of the monitor (\<open>monitor_requests\<close>) and where
  \<open>entrypoint\<close> stands.  Log lines are not modelled.
\<close>

record agent =
  session_id :: string
  config :: interview_config
  user_resume :: "string option"
  progress :: InterviewProgress
  room_participants :: "string set"
  current_question :: "question_record option"
  waiting_for_response :: bool
  store_calls :: "(store_call \<times> exn option) list"
  monitor_requests :: "monitor_request list"
  entrypoint_st :: entrypoint_status

text \<open>\<open>InterviewAgent.__init__\<close>.\<close>

definition new_agent :: "string \<Rightarrow> interview_config \<Rightarrow> string option \<Rightarrow> agent" where
  "new_agent sid cfg resume =
     \<lparr>session_id = sid, config = cfg, user_resume = resume, progress = new_progress,
      room_participants = {}, current_question = None, waiting_for_response = False,
      store_calls = [], monitor_requests = [], entrypoint_st = NotCalled\<rparr>"

text \<open>
  Everything outside the agent that one handler invocation meets: the clock, the two
  constants of \<open>settings\<close>, and the collaborators (question bank, evaluator, feedback
  generator, interview service, LiveKit session), each of which returns or raises.
  None of them is defined in this repository's sources, so they are parameters.  All
  readings of \<open>datetime.utcnow()\<close> made by one handler invocation are the one instant
  \<open>now\<close>.  A question returned by the bank is a dictionary from strings to strings,
  kept as an association list; \<open>None\<close> and the empty dictionary are both falsy.
\<close>

record env =
  now :: time
  MAX_QUESTIONS_PER_INTERVIEW :: int
  MIN_QUESTIONS_PER_INTERVIEW :: int
  get_total_available_questions :: "exn + int"
  get_next_question ::
    "int \<Rightarrow> response_record list \<Rightarrow> string option \<Rightarrow> exn + (string \<times> string) list option"
  evaluate_response_svc ::
    "string \<Rightarrow> py_str \<Rightarrow> string \<Rightarrow> string option \<Rightarrow> string option \<Rightarrow> nat \<Rightarrow> exn + evaluation"
  generate_response_feedback :: "evaluation \<Rightarrow> bool \<Rightarrow> exn + string"
  generate_final_feedback ::
    "question_record list \<Rightarrow> response_record list \<Rightarrow> interview_config \<Rightarrow> int \<Rightarrow> exn + final_feedback"
  save_progress :: "string \<Rightarrow> snapshot \<Rightarrow> exn option"
  start_session :: "string \<Rightarrow> exn option"
  complete_session :: "string \<Rightarrow> status_data \<Rightarrow> exn option"
  generate_reply :: "monitor_request \<Rightarrow> exn option"
  connect :: "exn option"
  start_and_greet :: "exn option"

section \<open>Helpers of the agent\<close>

text \<open>\<open>timedelta(minutes=m)\<close> in microseconds.\<close>

definition minutes :: "int \<Rightarrow> int" where
  "minutes m = m * 60000000"

text \<open>\<open>int(x / y)\<close> for \<open>y > 0\<close>: Python's \<open>int\<close> truncates towards zero.\<close>

definition int_trunc_div :: "int \<Rightarrow> int \<Rightarrow> int" where
  "int_trunc_div x y = (if 0 \<le> x then x div y else - ((- x) div y))"

text \<open>\<open>_get_interview_duration\<close>: whole minutes since \<open>start_time\<close>, 0 without one.\<close>

definition get_interview_duration :: "env \<Rightarrow> agent \<Rightarrow> int" where
  "get_interview_duration e a =
     (case start_time (progress a) of
        None \<Rightarrow> 0
      | Some st \<Rightarrow> int_trunc_div (now e - st) 60000000)"

text \<open>\<open>config.get(key, default)\<close>.\<close>

definition get_or :: "'a option \<Rightarrow> 'a \<Rightarrow> 'a" where
  "get_or v d = (case v of None \<Rightarrow> d | Some x \<Rightarrow> x)"

text \<open>
  \<open>_should_continue_interview\<close>.  It raises when the question bank's
  \<open>get_total_available_questions\<close> does, which is evaluated first.  The last comparison
  is between the integer number of minutes and the product \<open>target_duration * 1.2\<close>,
  taken here as the exact product: for an integer duration the floating-point product
  lies on the same side of every integer as the exact one.
\<close>

definition should_continue_interview :: "env \<Rightarrow> agent \<Rightarrow> exn + bool" where
  "should_continue_interview e a =
     (case get_total_available_questions e of
        Inl x \<Rightarrow> Inl x
      | Inr total_available \<Rightarrow>
          (let max_questions =
                 min (get_or (cfg_max_questions (config a)) (MAX_QUESTIONS_PER_INTERVIEW e))
                   total_available;
               min_questions =
                 max (get_or (cfg_min_questions (config a)) (MIN_QUESTIONS_PER_INTERVIEW e)) 3;
               asked = int (length (questions_asked (progress a)))
           in if asked < min_questions then Inr True
              else if asked \<ge> max_questions then Inr False
              else
                (let duration_minutes = get_interview_duration e a;
                     target_duration = get_or (cfg_duration (config a)) 30
                 in Inr (real_of_int duration_minutes < real_of_int target_duration * 1.2))))"

text \<open>
  \<open>str.isspace\<close> on one code point: the white space of Unicode as CPython lists it
  (U+0009 to U+000D, U+001C to U+0020, U+0085, U+00A0, U+1680, U+2000 to U+200A, U+2028,
  U+2029, U+202F, U+205F, U+3000), and \<open>str.strip()\<close>, which drops it at both ends.
\<close>

definition py_isspace :: "nat \<Rightarrow> bool" where
  "py_isspace c =
     ((9 \<le> c \<and> c \<le> 13) \<or> (28 \<le> c \<and> c \<le> 32) \<or> c = 133 \<or> c = 160 \<or> c = 5760 \<or>
      (8192 \<le> c \<and> c \<le> 8202) \<or> c = 8232 \<or> c = 8233 \<or> c = 8239 \<or> c = 8287 \<or> c = 12288)"

definition py_strip :: "py_str \<Rightarrow> py_str" where
  "py_strip s = rev (dropWhile py_isspace (rev (dropWhile py_isspace s)))"

text \<open>
  \<open>_send_data_message\<close> serialises the message and writes a log line; it sends nothing
  and catches every exception, so it leaves the agent as it is.  Its argument is the
  \<open>type\<close> of the message.
\<close>

definition send_data_message :: "string \<Rightarrow> agent \<Rightarrow> agent" where
  "send_data_message message_type a = a"

text \<open>
  \<open>_save_interview_progress\<close>: one \<open>save_progress\<close> call with the snapshot; an exception
  of the service is caught and logged.
\<close>

definition save_interview_progress :: "env \<Rightarrow> agent \<Rightarrow> agent" where
  "save_interview_progress e a =
     (let progress_data =
            \<lparr>snap_current_question_index = current_question_index (progress a),
             snap_questions_asked = questions_asked (progress a),
             snap_responses_received = responses_received (progress a),
             snap_state = state (progress a),
             snap_start_time = start_time (progress a),
             snap_last_activity = last_activity (progress a),
             snap_updated_at = now e\<rparr>
      in a\<lparr>store_calls := store_calls a @
              [(SaveProgress (session_id a) progress_data,
                save_progress e (session_id a) progress_data)]\<rparr>)"

text \<open>
  \<open>_update_interview_status\<close>: the \<open>if\<close>/\<open>elif\<close> chain has a branch for \<open>"started"\<close> and one
  for \<open>"completed"\<close> and no \<open>else\<close>; any other status issues no call.  An exception of the
  service is caught and logged.
\<close>

definition update_interview_status :: "env \<Rightarrow> string \<Rightarrow> status_data option \<Rightarrow> agent \<Rightarrow> agent" where
  "update_interview_status e status data a =
     (if status = ''started'' then
        a\<lparr>store_calls := store_calls a @
             [(StartSession (session_id a), start_session e (session_id a))]\<rparr>
      else if status = ''completed'' then
        (let d = get_or data EmptyDict
         in a\<lparr>store_calls := store_calls a @
                 [(CompleteSession (session_id a) d, complete_session e (session_id a) d)]\<rparr>)
      else a)"

text \<open>\<open>_handle_early_exit\<close>.\<close>

definition handle_early_exit :: "env \<Rightarrow> agent \<Rightarrow> agent" where
  "handle_early_exit e a =
     update_interview_status e ''incomplete''
       (Some (EarlyExitData ''early_exit''
                (length (questions_asked (progress a)))
                (length (responses_received (progress a)))
                (get_interview_duration e a))) a"

text \<open>\<open>_handle_agent_error\<close>.\<close>

fun handle_agent_error :: "env \<Rightarrow> exn \<Rightarrow> agent \<Rightarrow> agent" where
  "handle_agent_error e (Exn error_type error_message) a =
     update_interview_status e ''error'' (Some (ErrorData error_type error_message (now e))) a"

text \<open>\<open>_format_feedback_list\<close>: the bullet lines, at most three.\<close>

definition format_feedback_list :: "string list \<Rightarrow> string list" where
  "format_feedback_list items = (if items = [] then [''None identified''] else take 3 items)"

section \<open>The tools of the agent\<close>

text \<open>
  What a tool returns to its caller.  The Python returns text; the constructors stand
  for the texts, in the order of the source:
  \<^item> \<open>QuestionPrompt q\<close>: "Here's your next question: ... q ... Take your time to think
    through your response.";
  \<^item> \<open>Apology\<close>: "I apologize, let me think of an appropriate question for you.";
  \<^item> \<open>DidntCatch\<close>: "I didn't catch your response clearly. Could you please repeat that?";
  \<^item> \<open>Feedback f\<close>: the text \<open>f\<close> of the feedback generator;
  \<^item> \<open>GenericAck\<close>: "Thank you for that response. Let's continue with the next question.";
  \<^item> \<open>NoHint\<close>: "I don't have a specific hint right now. ...";
  \<^item> \<open>Hint h\<close>: "Here's a hint to help you structure your response: ... h ...";
  \<^item> \<open>WhatToClarify\<close>: "What would you like me to clarify?";
  \<^item> \<open>Clarification q\<close>: "Good question! Let me clarify: ... q ...";
  \<^item> \<open>Conclusion n d r ss is\<close>: the summary with the number of questions covered, the
    duration in minutes, the overall rating, the strengths and the improvements;
  \<^item> \<open>ConclusionFallback\<close>: "Thank you for the interview! You'll receive detailed feedback
    shortly.".
\<close>

datatype hint_text = BehavioralHint | TechnicalHint | SystemDesignHint | ProblemSolvingHint

datatype reply =
    QuestionPrompt string
  | Apology
  | DidntCatch
  | Feedback string
  | GenericAck
  | NoHint
  | Hint hint_text
  | WhatToClarify
  | Clarification string
  | Conclusion nat int string "string list" "string list"
  | ConclusionFallback

text \<open>
  \<open>_conclude_interview\<close>.  There is no test of the state on entry.  When the feedback
  generator raises, the \<open>except\<close> clause returns the fallback text and the state stays
  \<open>CONCLUDING\<close>.
\<close>

definition conclude_interview :: "env \<Rightarrow> agent \<Rightarrow> reply \<times> agent" where
  "conclude_interview e a =
     (let a1 = a\<lparr>progress := (progress a)\<lparr>state := CONCLUDING\<rparr>\<rparr>
      in case generate_final_feedback e (questions_asked (progress a1))
                (responses_received (progress a1)) (config a1) (get_interview_duration e a1) of
           Inl x \<Rightarrow> (ConclusionFallback, a1)
         | Inr final \<Rightarrow>
             (let a2 = send_data_message ''final_feedback'' a1;
                  a3 = update_interview_status e ''completed'' (Some (FinalFeedbackData final)) a2;
                  a4 = a3\<lparr>progress := (progress a3)\<lparr>state := COMPLETED\<rparr>\<rparr>
              in (Conclusion (length (questions_asked (progress a4)))
                    (get_interview_duration e a4)
                    (get_or (ff_overall_rating final) ''Good'')
                    (format_feedback_list (get_or (ff_strengths final) []))
                    (format_feedback_list (get_or (ff_improvements final) [])),
                  a4)))"

text \<open>
  \<open>_ask_next_question\<close>.  Every exception raised in its body ends in the \<open>except\<close>
  clause, which returns the apology: the policy raising, the question bank raising, and
  the \<open>KeyError\<close> of a question without \<open>'question'\<close> or \<open>'type'\<close>.
\<close>

definition ask_next_question :: "env \<Rightarrow> agent \<Rightarrow> reply \<times> agent" where
  "ask_next_question e a =
     (case should_continue_interview e a of
        Inl x \<Rightarrow> (Apology, a)
      | Inr False \<Rightarrow> conclude_interview e a
      | Inr True \<Rightarrow>
          (case get_next_question e (current_question_index (progress a))
                  (responses_received (progress a)) (user_resume a) of
             Inl x \<Rightarrow> (Apology, a)
           | Inr None \<Rightarrow> conclude_interview e a
           | Inr (Some []) \<Rightarrow> conclude_interview e a
           | Inr (Some question_data) \<Rightarrow>
               (case map_of question_data ''question'' of
                  None \<Rightarrow> (Apology, a)
                | Some question_text \<Rightarrow>
                    (case map_of question_data ''type'' of
                       None \<Rightarrow> (Apology, a)
                     | Some question_type \<Rightarrow>
                         (let question_record =
                                \<lparr>q_question = question_text,
                                 q_type = question_type,
                                 q_difficulty = get_or (map_of question_data ''difficulty'') ''medium'',
                                 q_timestamp = now e,
                                 q_index = current_question_index (progress a)\<rparr>;
                              a1 = a\<lparr>progress := (progress a)
                                       \<lparr>questions_asked :=
                                          questions_asked (progress a) @ [question_record],
                                        current_question_index :=
                                          current_question_index (progress a) + 1,
                                        state := QUESTIONING\<rparr>,
                                     current_question := Some question_record,
                                     waiting_for_response := True\<rparr>;
                              a2 = send_data_message ''question'' a1;
                              a3 = save_interview_progress e a2
                          in (QuestionPrompt question_text, a3))))))"

text \<open>
  \<open>_evaluate_response\<close>.  The guard tests \<open>self.current_question\<close> and the stripped
  text, nothing else.  The record is appended before the evaluator is called; when the
  evaluator or the feedback generator raises, the \<open>except\<close> clause returns the generic
  acknowledgement.
\<close>

definition evaluate_response :: "env \<Rightarrow> py_str \<Rightarrow> agent \<Rightarrow> reply \<times> agent" where
  "evaluate_response e response a =
     (case current_question a of
        None \<Rightarrow> (DidntCatch, a)
      | Some q \<Rightarrow>
          if py_strip response = [] then (DidntCatch, a)
          else
            (let response_record =
                   \<lparr>r_response = response,
                    r_question_index = q_index q,
                    r_timestamp = now e,
                    r_question_type = q_type q\<rparr>;
                 a1 = a\<lparr>progress := (progress a)
                          \<lparr>responses_received :=
                             responses_received (progress a) @ [response_record],
                           last_activity := Some (now e),
                           state := EVALUATING\<rparr>,
                        waiting_for_response := False\<rparr>;
                 n = length (responses_received (progress a1))
             in case evaluate_response_svc e (q_question q) response (q_type q)
                       (cfg_target_role (config a1)) (cfg_experience_level (config a1)) n of
                  Inl x \<Rightarrow> (GenericAck, a1)
                | Inr evaluation \<Rightarrow>
                    (case generate_response_feedback e evaluation (n \<le> 2) of
                       Inl x \<Rightarrow> (GenericAck, a1)
                     | Inr feedback \<Rightarrow>
                         (let a2 = send_data_message ''evaluation'' a1;
                              a3 = save_interview_progress e a2
                          in (Feedback feedback, a3)))))"

text \<open>\<open>_provide_hint\<close>: the dictionary \<open>hints\<close> with \<open>'behavioral'\<close> as the default.\<close>

definition hints :: "string \<Rightarrow> hint_text" where
  "hints question_type =
     (if question_type = ''behavioral'' then BehavioralHint
      else if question_type = ''technical'' then TechnicalHint
      else if question_type = ''system_design'' then SystemDesignHint
      else if question_type = ''problem_solving'' then ProblemSolvingHint
      else BehavioralHint)"

definition provide_hint :: "agent \<Rightarrow> reply \<times> agent" where
  "provide_hint a =
     (case current_question a of
        None \<Rightarrow> (NoHint, a)
      | Some q \<Rightarrow> (Hint (hints (q_type q)), a))"

text \<open>\<open>_handle_clarification\<close>: the request is only quoted in a prompt that is not used.\<close>

definition handle_clarification :: "py_str \<Rightarrow> agent \<Rightarrow> reply \<times> agent" where
  "handle_clarification request a =
     (case current_question a of
        None \<Rightarrow> (WhatToClarify, a)
      | Some q \<Rightarrow> (Clarification (q_question q), a))"

section \<open>Entry point and monitor loop\<close>

text \<open>
  The \<open>except\<close> clause of \<open>entrypoint\<close>: the state becomes \<open>ERROR\<close>,
  \<open>_handle_agent_error\<close> runs, and the exception is raised again.
\<close>

definition entrypoint_failed :: "env \<Rightarrow> exn \<Rightarrow> agent \<Rightarrow> agent" where
  "entrypoint_failed e x a =
     (let a1 = a\<lparr>progress := (progress a)\<lparr>state := ERROR\<rparr>\<rparr>;
          a2 = handle_agent_error e x a1
      in a2\<lparr>entrypoint_st := Raised x\<rparr>)"

text \<open>
  The head of the \<open>while\<close> loop of \<open>_monitor_interview_progress\<close>: the loop is left, and
  \<open>entrypoint\<close> returns, once the state is \<open>COMPLETED\<close> or \<open>ERROR\<close>; otherwise the coroutine
  sleeps for 30 seconds.
\<close>

definition monitor_loop_head :: "time \<Rightarrow> agent \<Rightarrow> agent" where
  "monitor_loop_head st a =
     (if state (progress a) \<in> {COMPLETED, ERROR} then a\<lparr>entrypoint_st := Returned\<rparr>
      else a\<lparr>entrypoint_st := MonitorSleeping st\<rparr>)"

text \<open>
  \<open>session.generate_reply(instructions=...)\<close> followed by \<open>break\<close>: the loop ends and
  \<open>entrypoint\<close> returns; an exception of the session reaches the \<open>except\<close> clause of
  \<open>entrypoint\<close>.
\<close>

definition request_reply :: "env \<Rightarrow> monitor_request \<Rightarrow> agent \<Rightarrow> agent" where
  "request_reply e r a =
     (let a1 = a\<lparr>monitor_requests := monitor_requests a @ [r]\<rparr>
      in case generate_reply e r of
           None \<Rightarrow> a1\<lparr>entrypoint_st := Returned\<rparr>
         | Some x \<Rightarrow> entrypoint_failed e x a1)"

text \<open>
  The body of the loop after \<open>asyncio.sleep(30)\<close> has returned, up to the next sleep.
  Other handlers run while the loop sleeps, so one iteration is one event of the session
  (\<open>MonitorWake\<close> below) and the loop is the sequence of these events.
\<close>

definition monitor_wake :: "env \<Rightarrow> agent \<Rightarrow> agent" where
  "monitor_wake e a =
     (case entrypoint_st a of
        MonitorSleeping st \<Rightarrow>
          (let max_duration = minutes (get_or (cfg_duration (config a)) 30 + 5);
               current_time = now e;
               elapsed = current_time - st
           in if elapsed > max_duration then request_reply e TimeoutReached a
              else if (case last_activity (progress a) of
                         None \<Rightarrow> False
                       | Some la \<Rightarrow> current_time - la > minutes 10)
              then request_reply e CandidateInactive a
              else monitor_loop_head st a)
      | _ \<Rightarrow> a)"

text \<open>
  \<open>entrypoint\<close> up to the first sleep of the monitor.  \<open>connect\<close> is \<open>ctx.connect()\<close>;
  \<open>start_and_greet\<close> is everything between the assignment of \<open>GREETING\<close> and the status
  update (building the agent and the session, registering the handlers, starting the
  session, the greeting).  The \<open>start_time\<close> that the monitor captures is the one just
  assigned, \<open>now e\<close>.  The steps of \<open>entrypoint\<close> before the first sleep are taken as
  one event.
\<close>

definition entrypoint :: "env \<Rightarrow> agent \<Rightarrow> agent" where
  "entrypoint e a =
     (case connect e of
        Some x \<Rightarrow> entrypoint_failed e x a
      | None \<Rightarrow>
          (let a1 = a\<lparr>progress := (progress a)\<lparr>start_time := Some (now e), state := GREETING\<rparr>\<rparr>
           in case start_and_greet e of
                Some x \<Rightarrow> entrypoint_failed e x a1
              | None \<Rightarrow>
                  (let a2 = update_interview_status e ''started'' None a1
                   in monitor_loop_head (now e) a2)))"

section \<open>Room events and the session as a sequence of events\<close>

text \<open>
  An inbound data message after \<open>json.loads\<close>, by its \<open>type\<close>; the text is
  \<open>message.get('data', {}).get('response', '')\<close>, empty when a key is missing.
\<close>

datatype message =
    ResponseSubmitted py_str
  | RequestHint
  | RequestClarification py_str
  | UnknownMessage

text \<open>\<open>_handle_data_message\<close>; the replies of the tools are dropped.\<close>

definition handle_data_message :: "env \<Rightarrow> message \<Rightarrow> agent \<Rightarrow> agent" where
  "handle_data_message e m a =
     (case m of
        ResponseSubmitted response_text \<Rightarrow>
          if response_text \<noteq> [] \<and> waiting_for_response a
          then snd (evaluate_response e response_text a) else a
      | RequestHint \<Rightarrow> snd (provide_hint a)
      | RequestClarification clarification_text \<Rightarrow> snd (handle_clarification clarification_text a)
      | UnknownMessage \<Rightarrow> a)"

text \<open>The handlers registered in \<open>_setup_event_handlers\<close>.  The task created on the last
  disconnection runs \<open>_handle_early_exit\<close>.\<close>

definition on_participant_connected :: "string \<Rightarrow> agent \<Rightarrow> agent" where
  "on_participant_connected identity a =
     a\<lparr>room_participants := insert identity (room_participants a)\<rparr>"

definition on_participant_disconnected :: "env \<Rightarrow> string \<Rightarrow> agent \<Rightarrow> agent" where
  "on_participant_disconnected e identity a =
     (let a1 = a\<lparr>room_participants := room_participants a - {identity}\<rparr>
      in if room_participants a1 = {} then handle_early_exit e a1 else a1)"

text \<open>
  What can happen to a session: the worker calls \<open>entrypoint\<close>, the language model calls
  one of the five tools, the room reports a participant or a data packet, or the sleep
  of the monitor ends.  Each event meets its own environment.
\<close>

datatype event =
    Entrypoint
  | AskNextQuestion
  | EvaluateResponse py_str
  | ProvideHint
  | HandleClarification py_str
  | ConcludeInterview
  | ParticipantConnected string
  | ParticipantDisconnected string
  | DataReceived message
  | MonitorWake

fun step :: "env \<times> event \<Rightarrow> agent \<Rightarrow> agent" where
  "step (e, Entrypoint) a = entrypoint e a"
| "step (e, AskNextQuestion) a = snd (ask_next_question e a)"
| "step (e, EvaluateResponse response) a = snd (evaluate_response e response a)"
| "step (e, ProvideHint) a = snd (provide_hint a)"
| "step (e, HandleClarification request) a = snd (handle_clarification request a)"
| "step (e, ConcludeInterview) a = snd (conclude_interview e a)"
| "step (e, ParticipantConnected identity) a = on_participant_connected identity a"
| "step (e, ParticipantDisconnected identity) a = on_participant_disconnected e identity a"
| "step (e, DataReceived m) a = handle_data_message e m a"
| "step (e, MonitorWake) a = monitor_wake e a"

fun run :: "(env \<times> event) list \<Rightarrow> agent \<Rightarrow> agent" where
  "run [] a = a"
| "run (ev # evs) a = run evs (step ev a)"

section \<open>Counting persistence writes\<close>

text \<open>The number of \<open>complete_session\<close> calls issued so far: the "completed" status writes.\<close>

fun is_complete_session :: "store_call \<times> exn option \<Rightarrow> bool" where
  "is_complete_session (CompleteSession sid d, outcome) = True"
| "is_complete_session (c, outcome) = False"

definition completed_writes :: "agent \<Rightarrow> nat" where
  "completed_writes a = length (filter is_complete_session (store_calls a))"

section \<open>Scenarios\<close>

text \<open>
  Concrete sessions for the examples below: a configuration with three to five questions
  in thirty minutes, collaborators that all succeed at the instant \<open>t\<close>, and variants in
  which one collaborator raises.
\<close>

definition scenario_config :: interview_config where
  "scenario_config =
     \<lparr>cfg_max_questions = Some 5, cfg_min_questions = Some 3, cfg_duration = Some 30,
      cfg_target_role = Some ''Software Developer'', cfg_experience_level = Some ''mid''\<rparr>"

definition scenario_env :: "time \<Rightarrow> env" where
  "scenario_env t =
     \<lparr>now = t, MAX_QUESTIONS_PER_INTERVIEW = 10, MIN_QUESTIONS_PER_INTERVIEW = 3,
      get_total_available_questions = Inr 5,
      get_next_question = (\<lambda>i rs resume.
         Inr (Some [(''question'', ''Tell me about a project.''), (''type'', ''behavioral'')])),
      evaluate_response_svc = (\<lambda>q r ty role lvl n.
         Inr \<lparr>ev_score = 7, ev_strengths = [''clear''], ev_weaknesses = []\<rparr>),
      generate_response_feedback = (\<lambda>ev early. Inr ''Good answer.''),
      generate_final_feedback = (\<lambda>qs rs cfg d.
         Inr \<lparr>ff_overall_rating = Some ''Good'', ff_strengths = Some [''clear''],
              ff_improvements = None\<rparr>),
      save_progress = (\<lambda>sid snap. None),
      start_session = (\<lambda>sid. None),
      complete_session = (\<lambda>sid d. None),
      generate_reply = (\<lambda>r. None),
      connect = None,
      start_and_greet = None\<rparr>"

definition evaluator_down :: "time \<Rightarrow> env" where
  "evaluator_down t =
     (scenario_env t)\<lparr>evaluate_response_svc :=
        (\<lambda>q r ty role lvl n. Inl (Exn ''RuntimeError'' ''evaluator unavailable''))\<rparr>"

definition store_down :: "time \<Rightarrow> env" where
  "store_down t =
     (scenario_env t)\<lparr>save_progress :=
        (\<lambda>sid snap. Some (Exn ''ConnectionError'' ''database unreachable''))\<rparr>"

definition question_bank_down :: "time \<Rightarrow> env" where
  "question_bank_down t =
     (scenario_env t)\<lparr>get_next_question :=
        (\<lambda>i rs resume. Inl (Exn ''TimeoutError'' ''question bank unavailable''))\<rparr>"

definition scenario_agent :: agent where
  "scenario_agent = new_agent ''session-1'' scenario_config None"

text \<open>The text "hi" as code points.\<close>

definition hi :: py_str where
  "hi = [104, 105]"

text \<open>
  The session starts at instant 0 and one candidate joins; round \<open>n\<close> asks a question at
  minute \<open>2n + 1\<close> and the candidate answers "hi" at minute \<open>2n + 2\<close>.
\<close>

definition scenario_start :: "(env \<times> event) list" where
  "scenario_start =
     [(scenario_env 0, Entrypoint), (scenario_env 0, ParticipantConnected ''candidate'')]"

fun scenario_rounds :: "nat \<Rightarrow> (env \<times> event) list" where
  "scenario_rounds 0 = []"
| "scenario_rounds (Suc n) =
     scenario_rounds n @
       [(scenario_env (minutes (2 * int n + 1)), AskNextQuestion),
        (scenario_env (minutes (2 * int n + 2)), EvaluateResponse hi)]"

definition scenario_after :: "nat \<Rightarrow> agent" where
  "scenario_after n = run (scenario_start @ scenario_rounds n) scenario_agent"

text \<open>
  A session that started at instant 0 and has asked \<open>n\<close> questions, one a minute, none of
  them answered yet; it serves to evaluate the continuation policy at a given count.
\<close>

definition asked_so_far :: "nat \<Rightarrow> agent" where
  "asked_so_far n =
     scenario_agent
       \<lparr>progress := new_progress
          \<lparr>current_question_index := int n,
           questions_asked :=
             map (\<lambda>i. \<lparr>q_question = ''Tell me about a project.'', q_type = ''behavioral'',
                        q_difficulty = ''medium'', q_timestamp = minutes (int i + 1),
                        q_index = int i\<rparr>) [0..<n],
           start_time := Some 0,
           state := QUESTIONING\<rparr>\<rparr>"

text \<open>A session in which the first question, asked at minute 1, is never answered.\<close>

definition silent_session :: agent where
  "silent_session =
     run (scenario_start @ [(scenario_env (minutes 1), AskNextQuestion)]) scenario_agent"

section \<open>Facts about the helpers\<close>

lemma py_strip_Nil: "py_strip s = [] \<longleftrightarrow> list_all py_isspace s"
proof -
  have "dropWhile py_isspace (rev (dropWhile py_isspace s)) = [] \<longleftrightarrow> dropWhile py_isspace s = []"
  proof
    assume h: "dropWhile py_isspace (rev (dropWhile py_isspace s)) = []"
    show "dropWhile py_isspace s = []"
    proof (rule ccontr)
      assume ne: "dropWhile py_isspace s \<noteq> []"
      then have "\<not> py_isspace (hd (dropWhile py_isspace s))"
        by (simp add: hd_dropWhile)
      moreover have "hd (dropWhile py_isspace s) \<in> set (rev (dropWhile py_isspace s))"
        using ne by simp
      ultimately show False using h by (auto simp add: dropWhile_eq_Nil_conv)
    qed
  next
    assume e: "dropWhile py_isspace s = []"
    show "dropWhile py_isspace (rev (dropWhile py_isspace s)) = []"
      unfolding e by simp
  qed
  moreover have "py_strip s = [] \<longleftrightarrow> dropWhile py_isspace (rev (dropWhile py_isspace s)) = []"
    by (simp add: py_strip_def)
  moreover have "dropWhile py_isspace s = [] \<longleftrightarrow> list_all py_isspace s"
    by (simp add: dropWhile_eq_Nil_conv list_all_iff)
  ultimately show ?thesis by blast
qed

lemma update_interview_status_other:
  "status \<noteq> ''started'' \<Longrightarrow> status \<noteq> ''completed'' \<Longrightarrow> update_interview_status e status d a = a"
  by (simp add: update_interview_status_def)

lemma handle_early_exit_id: "handle_early_exit e a = a"
  by (simp add: handle_early_exit_def update_interview_status_other)

lemma handle_agent_error_id: "handle_agent_error e x a = a"
  by (cases x) (simp add: update_interview_status_other)

lemma conclude_interview_ok:
  assumes "generate_final_feedback e (questions_asked (progress a))
             (responses_received (progress a)) (config a) (get_interview_duration e a) = Inr final"
  shows "conclude_interview e a =
           (Conclusion (length (questions_asked (progress a))) (get_interview_duration e a)
              (get_or (ff_overall_rating final) ''Good'')
              (format_feedback_list (get_or (ff_strengths final) []))
              (format_feedback_list (get_or (ff_improvements final) [])),
            a\<lparr>progress := (progress a)\<lparr>state := COMPLETED\<rparr>,
              store_calls := store_calls a @
                [(CompleteSession (session_id a) (FinalFeedbackData final),
                  complete_session e (session_id a) (FinalFeedbackData final))]\<rparr>)"
  using assms
  by (simp add: conclude_interview_def Let_def get_interview_duration_def send_data_message_def
      update_interview_status_def get_or_def)

lemma conclude_interview_failed:
  assumes "generate_final_feedback e (questions_asked (progress a))
             (responses_received (progress a)) (config a) (get_interview_duration e a) = Inl x"
  shows "conclude_interview e a =
           (ConclusionFallback, a\<lparr>progress := (progress a)\<lparr>state := CONCLUDING\<rparr>\<rparr>)"
proof -
  have d: "get_interview_duration e (a\<lparr>progress := (progress a)\<lparr>state := CONCLUDING\<rparr>\<rparr>) =
      get_interview_duration e a"
    by (simp add: get_interview_duration_def)
  show ?thesis
    using assms by (simp add: conclude_interview_def Let_def d)
qed

lemma on_participant_disconnected_effect:
  "on_participant_disconnected e identity a =
     a\<lparr>room_participants := room_participants a - {identity}\<rparr>"
  by (simp add: on_participant_disconnected_def handle_early_exit_id Let_def)

lemma run_append: "run (xs @ ys) a = run ys (run xs a)"
  by (induction xs arbitrary: a) simp_all

lemma run_invariant:
  assumes "P a" and "\<And>ev b. P b \<Longrightarrow> P (step ev b)"
  shows "P (run evs a)"
  using assms(1)
proof (induction evs arbitrary: a)
  case Nil
  then show ?case by simp
next
  case (Cons ev evs)
  then show ?case by (simp add: assms(2))
qed

lemma conclude_interview_fields:
  "questions_asked (progress (snd (conclude_interview e a))) = questions_asked (progress a)"
  "responses_received (progress (snd (conclude_interview e a))) = responses_received (progress a)"
  "current_question_index (progress (snd (conclude_interview e a))) =
     current_question_index (progress a)"
  "start_time (progress (snd (conclude_interview e a))) = start_time (progress a)"
  "last_activity (progress (snd (conclude_interview e a))) = last_activity (progress a)"
  "state (progress (snd (conclude_interview e a))) = CONCLUDING \<or>
   state (progress (snd (conclude_interview e a))) = COMPLETED"
  "monitor_requests (snd (conclude_interview e a)) = monitor_requests a"
  "entrypoint_st (snd (conclude_interview e a)) = entrypoint_st a"
  "fst (conclude_interview e a) \<noteq> QuestionPrompt t"
  by (cases "generate_final_feedback e (questions_asked (progress a))
      (responses_received (progress a)) (config a) (get_interview_duration e a)";
      simp add: conclude_interview_ok conclude_interview_failed)+

lemma ask_next_question_asks:
  assumes "should_continue_interview e a = Inr True"
    and "get_next_question e (current_question_index (progress a))
           (responses_received (progress a)) (user_resume a) = Inr (Some (x # xs))"
    and "map_of (x # xs) ''question'' = Some t"
    and "map_of (x # xs) ''type'' = Some ty"
    and "q = \<lparr>q_question = t, q_type = ty,
              q_difficulty = get_or (map_of (x # xs) ''difficulty'') ''medium'',
              q_timestamp = now e, q_index = current_question_index (progress a)\<rparr>"
  shows "ask_next_question e a =
        (QuestionPrompt t,
         save_interview_progress e
           (a\<lparr>progress := (progress a)
                \<lparr>questions_asked := questions_asked (progress a) @ [q],
                 current_question_index := current_question_index (progress a) + 1,
                 state := QUESTIONING\<rparr>,
              current_question := Some q,
              waiting_for_response := True\<rparr>))"
  unfolding ask_next_question_def assms(1,2) Let_def send_data_message_def
  using assms(3,4,5) by simp

lemma ask_next_question_cases:
  "ask_next_question e a = (Apology, a) \<or>
   ask_next_question e a = conclude_interview e a \<or>
   (\<exists>q t. q_index q = current_question_index (progress a) \<and>
      ask_next_question e a =
        (QuestionPrompt t,
         save_interview_progress e
           (a\<lparr>progress := (progress a)
                \<lparr>questions_asked := questions_asked (progress a) @ [q],
                 current_question_index := current_question_index (progress a) + 1,
                 state := QUESTIONING\<rparr>,
              current_question := Some q,
              waiting_for_response := True\<rparr>)))"
proof (cases "should_continue_interview e a")
  case (Inl x)
  then show ?thesis by (simp add: ask_next_question_def)
next
  case (Inr continue)
  show ?thesis
  proof (cases continue)
    case False
    with Inr show ?thesis by (simp add: ask_next_question_def)
  next
    case True
    from Inr True have go: "should_continue_interview e a = Inr True"
      by simp
    show ?thesis
    proof (cases "get_next_question e (current_question_index (progress a))
        (responses_received (progress a)) (user_resume a)")
      case (Inl x)
      with go show ?thesis by (simp add: ask_next_question_def)
    next
      case (Inr question_data)
      note got = Inr
      show ?thesis
      proof (cases question_data)
        case None
        with go got show ?thesis by (simp add: ask_next_question_def)
      next
        case (Some items)
        show ?thesis
        proof (cases items)
          case Nil
          with go got Some show ?thesis by (simp add: ask_next_question_def)
        next
          case (Cons x xs)
          from got Some Cons
          have bank: "get_next_question e (current_question_index (progress a))
              (responses_received (progress a)) (user_resume a) = Inr (Some (x # xs))"
            by simp
          show ?thesis
          proof (cases "map_of (x # xs) ''question''")
            case None
            show ?thesis
              unfolding ask_next_question_def go bank using None by simp
          next
            case (Some t)
            note question = Some
            show ?thesis
            proof (cases "map_of (x # xs) ''type''")
              case None
              show ?thesis
                unfolding ask_next_question_def go bank using question None by simp
            next
              case (Some ty)
              from ask_next_question_asks [OF go bank question Some refl]
              show ?thesis by (intro disjI2 exI conjI) simp_all
            qed
          qed
        qed
      qed
    qed
  qed
qed

lemma ask_next_question_fields:
  "responses_received (progress (snd (ask_next_question e a))) = responses_received (progress a)"
  "start_time (progress (snd (ask_next_question e a))) = start_time (progress a)"
  "last_activity (progress (snd (ask_next_question e a))) = last_activity (progress a)"
  "monitor_requests (snd (ask_next_question e a)) = monitor_requests a"
  "entrypoint_st (snd (ask_next_question e a)) = entrypoint_st a"
  using ask_next_question_cases [of e a]
  by (auto simp add: conclude_interview_fields save_interview_progress_def Let_def)

lemma ask_next_question_save_progress:
  "fst (ask_next_question (e\<lparr>save_progress := f\<rparr>) a) = fst (ask_next_question e a) \<and>
   progress (snd (ask_next_question (e\<lparr>save_progress := f\<rparr>) a)) =
     progress (snd (ask_next_question e a))"
proof -
  have duration: "get_interview_duration (e\<lparr>save_progress := f\<rparr>) b =
      get_interview_duration e b" for b
    by (simp add: get_interview_duration_def split: option.split)
  have policy: "should_continue_interview (e\<lparr>save_progress := f\<rparr>) a =
      should_continue_interview e a"
    by (simp add: should_continue_interview_def duration Let_def split: sum.split)
  have conclude: "conclude_interview (e\<lparr>save_progress := f\<rparr>) a = conclude_interview e a"
    by (simp add: conclude_interview_def duration update_interview_status_def
        send_data_message_def Let_def split: sum.split)
  show ?thesis
  proof (cases "should_continue_interview e a")
    case (Inl x)
    then show ?thesis by (simp add: ask_next_question_def policy)
  next
    case (Inr continue)
    show ?thesis
    proof (cases continue)
      case False
      with Inr show ?thesis by (simp add: ask_next_question_def policy conclude)
    next
      case True
      from Inr True have go: "should_continue_interview e a = Inr True"
        by simp
      show ?thesis
      proof (cases "get_next_question e (current_question_index (progress a))
          (responses_received (progress a)) (user_resume a)")
        case (Inl x)
        with go show ?thesis by (simp add: ask_next_question_def policy)
      next
        case (Inr question_data)
        note got = Inr
        show ?thesis
        proof (cases question_data)
          case None
          with go got show ?thesis by (simp add: ask_next_question_def policy conclude)
        next
          case (Some items)
          show ?thesis
          proof (cases items)
            case Nil
            with go got Some show ?thesis by (simp add: ask_next_question_def policy conclude)
          next
            case (Cons x xs)
            from got Some Cons
            have bank: "get_next_question e (current_question_index (progress a))
                (responses_received (progress a)) (user_resume a) = Inr (Some (x # xs))"
              by simp
            then have bank': "get_next_question (e\<lparr>save_progress := f\<rparr>)
                (current_question_index (progress a))
                (responses_received (progress a)) (user_resume a) = Inr (Some (x # xs))"
              by simp
            note go' = go [folded policy]
            show ?thesis
            proof (cases "map_of (x # xs) ''question''")
              case None
              show ?thesis
                unfolding ask_next_question_def go go' bank bank' using None by simp
            next
              case (Some t)
              note question = Some
              show ?thesis
              proof (cases "map_of (x # xs) ''type''")
                case None
                show ?thesis
                  unfolding ask_next_question_def go go' bank bank' using question None by simp
              next
                case (Some ty)
                show ?thesis
                  unfolding ask_next_question_asks [OF go bank question Some refl]
                    ask_next_question_asks [OF go' bank' question Some refl]
                  by (simp add: save_interview_progress_def Let_def)
              qed
            qed
          qed
        qed
      qed
    qed
  qed
qed

lemma evaluate_response_fields:
  "questions_asked (progress (snd (evaluate_response e r a))) = questions_asked (progress a)"
  "current_question_index (progress (snd (evaluate_response e r a))) =
     current_question_index (progress a)"
  "start_time (progress (snd (evaluate_response e r a))) = start_time (progress a)"
  "monitor_requests (snd (evaluate_response e r a)) = monitor_requests a"
  "entrypoint_st (snd (evaluate_response e r a)) = entrypoint_st a"
  by (auto simp add: evaluate_response_def Let_def send_data_message_def
      save_interview_progress_def split: option.splits sum.splits)

lemma evaluate_response_cases:
  "evaluate_response e r a = (DidntCatch, a) \<or>
   (\<exists>x. responses_received (progress (snd (evaluate_response e r a))) =
        responses_received (progress a) @ [x])"
  by (auto simp add: evaluate_response_def Let_def send_data_message_def
      save_interview_progress_def split: option.splits sum.splits)

lemma evaluate_response_accepted:
  assumes "current_question a \<noteq> None" and "\<not> list_all py_isspace response"
  shows "fst (evaluate_response e response a) \<noteq> DidntCatch \<and>
         length (responses_received (progress (snd (evaluate_response e response a)))) =
           length (responses_received (progress a)) + 1 \<and>
         last_activity (progress (snd (evaluate_response e response a))) = Some (now e) \<and>
         state (progress (snd (evaluate_response e response a))) = EVALUATING"
  using assms
  by (auto simp add: evaluate_response_def py_strip_Nil Let_def send_data_message_def
      save_interview_progress_def split: option.splits sum.splits)

lemma entrypoint_fields:
  "questions_asked (progress (entrypoint e a)) = questions_asked (progress a)"
  "current_question_index (progress (entrypoint e a)) = current_question_index (progress a)"
  "responses_received (progress (entrypoint e a)) = responses_received (progress a)"
  "last_activity (progress (entrypoint e a)) = last_activity (progress a)"
  "monitor_requests (entrypoint e a) = monitor_requests a"
  by (auto simp add: entrypoint_def entrypoint_failed_def handle_agent_error_id Let_def
      update_interview_status_def monitor_loop_head_def split: option.splits)

lemma monitor_wake_fields:
  "questions_asked (progress (monitor_wake e a)) = questions_asked (progress a)"
  "current_question_index (progress (monitor_wake e a)) = current_question_index (progress a)"
  "responses_received (progress (monitor_wake e a)) = responses_received (progress a)"
  "last_activity (progress (monitor_wake e a)) = last_activity (progress a)"
  "start_time (progress (monitor_wake e a)) = start_time (progress a)"
  by (auto simp add: monitor_wake_def request_reply_def entrypoint_failed_def
      handle_agent_error_id Let_def monitor_loop_head_def
      split: option.splits entrypoint_status.splits)

lemma handle_data_message_fields:
  "questions_asked (progress (handle_data_message e m a)) = questions_asked (progress a)"
  "current_question_index (progress (handle_data_message e m a)) =
     current_question_index (progress a)"
  "monitor_requests (handle_data_message e m a) = monitor_requests a"
  by (auto simp add: handle_data_message_def evaluate_response_fields provide_hint_def
      handle_clarification_def split: message.splits option.splits)

lemma handle_data_message_cases:
  "handle_data_message e m a = a \<or>
   (\<exists>response. handle_data_message e m a = snd (evaluate_response e response a))"
  by (cases m) (auto simp add: handle_data_message_def provide_hint_def
      handle_clarification_def split: option.splits)

lemma request_reply_fields:
  "monitor_requests (request_reply e r a) = monitor_requests a @ [r]"
  "entrypoint_st (request_reply e r a) \<noteq> MonitorSleeping t"
  by (simp_all add: request_reply_def entrypoint_failed_def handle_agent_error_id Let_def
      split: option.splits)

lemma monitor_loop_head_fields:
  "monitor_requests (monitor_loop_head st a) = monitor_requests a"
  "state (progress a) \<in> {COMPLETED, ERROR} \<Longrightarrow> entrypoint_st (monitor_loop_head st a) = Returned"
  "state (progress a) \<notin> {COMPLETED, ERROR} \<Longrightarrow>
     entrypoint_st (monitor_loop_head st a) = MonitorSleeping st"
  by (simp_all add: monitor_loop_head_def)

lemma monitor_wake_cases:
  assumes "entrypoint_st a = MonitorSleeping st"
  shows "(now e - st > minutes (get_or (cfg_duration (config a)) 30 + 5) \<and>
          monitor_wake e a = request_reply e TimeoutReached a) \<or>
         (\<not> now e - st > minutes (get_or (cfg_duration (config a)) 30 + 5) \<and>
          (\<exists>la. last_activity (progress a) = Some la \<and> now e - la > minutes 10) \<and>
          monitor_wake e a = request_reply e CandidateInactive a) \<or>
         (\<not> now e - st > minutes (get_or (cfg_duration (config a)) 30 + 5) \<and>
          \<not> (\<exists>la. last_activity (progress a) = Some la \<and> now e - la > minutes 10) \<and>
          monitor_wake e a = monitor_loop_head st a)"
  using assms by (auto simp add: monitor_wake_def Let_def split: option.splits)

lemma monitor_wake_no_inactivity:
  assumes "last_activity (progress a) = None"
  shows "monitor_wake e a = a \<or> monitor_requests (monitor_wake e a) = monitor_requests a \<or>
         monitor_requests (monitor_wake e a) = monitor_requests a @ [TimeoutReached]"
proof (cases "entrypoint_st a")
  case (MonitorSleeping st)
  from monitor_wake_cases [OF this, of e] assms show ?thesis
    by (auto simp add: request_reply_fields monitor_loop_head_fields)
qed (simp_all add: monitor_wake_def)

lemma step_questions_asked:
  "(questions_asked (progress (step ev a)) = questions_asked (progress a) \<and>
    current_question_index (progress (step ev a)) = current_question_index (progress a)) \<or>
   (\<exists>q. q_index q = current_question_index (progress a) \<and>
      questions_asked (progress (step ev a)) = questions_asked (progress a) @ [q] \<and>
      current_question_index (progress (step ev a)) = current_question_index (progress a) + 1)"
proof (cases ev)
  case (Pair e event)
  show ?thesis
  proof (cases event)
    case AskNextQuestion
    from ask_next_question_cases [of e a] show ?thesis
      unfolding Pair AskNextQuestion step.simps
      by (auto simp add: conclude_interview_fields save_interview_progress_def Let_def)
  qed (simp_all add: Pair entrypoint_fields evaluate_response_fields provide_hint_def
      handle_clarification_def conclude_interview_fields on_participant_connected_def
      on_participant_disconnected_effect handle_data_message_fields monitor_wake_fields
      split: option.splits)
qed

lemma step_questions_indexed:
  assumes "int (length (questions_asked (progress a))) = current_question_index (progress a) \<and>
           map q_index (questions_asked (progress a)) =
             map int [0..<length (questions_asked (progress a))]"
  shows "int (length (questions_asked (progress (step ev a)))) =
           current_question_index (progress (step ev a)) \<and>
         map q_index (questions_asked (progress (step ev a))) =
           map int [0..<length (questions_asked (progress (step ev a)))]"
  using step_questions_asked [of ev a] assms by auto

lemma step_no_inactivity:
  assumes "responses_received (progress a) = [] \<longrightarrow>
           last_activity (progress a) = None \<and> CandidateInactive \<notin> set (monitor_requests a)"
  shows "responses_received (progress (step ev a)) = [] \<longrightarrow>
         last_activity (progress (step ev a)) = None \<and>
         CandidateInactive \<notin> set (monitor_requests (step ev a))"
proof (cases ev)
  case (Pair e event)
  show ?thesis
  proof (cases event)
    case (EvaluateResponse response)
    from evaluate_response_cases [of e response a] assms show ?thesis
      unfolding Pair EvaluateResponse step.simps
      by (auto simp add: evaluate_response_fields)
  next
    case (DataReceived m)
    from handle_data_message_cases [of e m a] show ?thesis
    proof
      assume "handle_data_message e m a = a"
      with assms show ?thesis by (simp add: Pair DataReceived)
    next
      assume "\<exists>response. handle_data_message e m a = snd (evaluate_response e response a)"
      then obtain response
        where r: "handle_data_message e m a = snd (evaluate_response e response a)"
        by blast
      from evaluate_response_cases [of e response a] assms show ?thesis
        unfolding Pair DataReceived step.simps r
        by (auto simp add: evaluate_response_fields)
    qed
  next
    case MonitorWake
    show ?thesis
    proof (cases "responses_received (progress a) = []")
      case True
      with assms have "last_activity (progress a) = None" by simp
      from monitor_wake_no_inactivity [OF this, of e] assms True show ?thesis
        unfolding Pair MonitorWake step.simps
        by (auto simp add: monitor_wake_fields)
    next
      case False
      then show ?thesis by (simp add: Pair MonitorWake monitor_wake_fields)
    qed
  qed (use assms in \<open>simp_all add: Pair entrypoint_fields ask_next_question_fields
      provide_hint_def handle_clarification_def conclude_interview_fields
      on_participant_connected_def on_participant_disconnected_effect split: option.splits\<close>)
qed

section \<open>The scenario, step by step\<close>

text \<open>
  The states of the scenario are computed one handler at a time: the session after the
  start, after the first round, with the second question outstanding, after the second
  round, and concluded after the first round.
\<close>

lemma scenario_after_Suc:
  "scenario_after (Suc n) =
     snd (evaluate_response (scenario_env (minutes (2 * int n + 2))) hi
       (snd (ask_next_question (scenario_env (minutes (2 * int n + 1))) (scenario_after n))))"
  by (simp add: scenario_after_def run_append flip: append_assoc)

lemma scenario_after_0:
  "scenario_after 0 =
     \<lparr>session_id = ''session-1'', config = scenario_config, user_resume = None,
      progress =
        \<lparr>current_question_index = 0, questions_asked = [], responses_received = [],
         start_time = Some 0, last_activity = None, state = GREETING\<rparr>,
      room_participants = {''candidate''}, current_question = None,
      waiting_for_response = False,
      store_calls = [(StartSession ''session-1'', None)],
      monitor_requests = [], entrypoint_st = MonitorSleeping 0\<rparr>"
  by (simp add: scenario_after_def scenario_start_def scenario_agent_def new_agent_def
      new_progress_def entrypoint_def scenario_env_def update_interview_status_def
      monitor_loop_head_def on_participant_connected_def Let_def)

lemma scenario_after_1:
  "scenario_after (Suc 0) =
     \<lparr>session_id = ''session-1'', config = scenario_config, user_resume = None,
      progress =
        \<lparr>current_question_index = 1,
         questions_asked =
           [\<lparr>q_question = ''Tell me about a project.'', q_type = ''behavioral'',
             q_difficulty = ''medium'', q_timestamp = 60000000, q_index = 0\<rparr>],
         responses_received =
           [\<lparr>r_response = [104, 105], r_question_index = 0, r_timestamp = 120000000,
             r_question_type = ''behavioral''\<rparr>],
         start_time = Some 0, last_activity = Some 120000000, state = EVALUATING\<rparr>,
      room_participants = {''candidate''},
      current_question =
        Some \<lparr>q_question = ''Tell me about a project.'', q_type = ''behavioral'',
              q_difficulty = ''medium'', q_timestamp = 60000000, q_index = 0\<rparr>,
      waiting_for_response = False,
      store_calls =
        [(StartSession ''session-1'', None),
         (SaveProgress ''session-1''
            \<lparr>snap_current_question_index = 1,
             snap_questions_asked =
               [\<lparr>q_question = ''Tell me about a project.'', q_type = ''behavioral'',
                 q_difficulty = ''medium'', q_timestamp = 60000000, q_index = 0\<rparr>],
             snap_responses_received = [], snap_state = QUESTIONING,
             snap_start_time = Some 0, snap_last_activity = None,
             snap_updated_at = 60000000\<rparr>, None),
         (SaveProgress ''session-1''
            \<lparr>snap_current_question_index = 1,
             snap_questions_asked =
               [\<lparr>q_question = ''Tell me about a project.'', q_type = ''behavioral'',
                 q_difficulty = ''medium'', q_timestamp = 60000000, q_index = 0\<rparr>],
             snap_responses_received =
               [\<lparr>r_response = [104, 105], r_question_index = 0, r_timestamp = 120000000,
                 r_question_type = ''behavioral''\<rparr>],
             snap_state = EVALUATING, snap_start_time = Some 0,
             snap_last_activity = Some 120000000, snap_updated_at = 120000000\<rparr>, None)],
      monitor_requests = [], entrypoint_st = MonitorSleeping 0\<rparr>"
  unfolding scenario_after_Suc scenario_after_0
  by (simp add: ask_next_question_def should_continue_interview_def scenario_env_def
      scenario_config_def get_or_def Let_def send_data_message_def save_interview_progress_def
      evaluate_response_def py_strip_def py_isspace_def hi_def minutes_def)

lemma second_question:
  "snd (ask_next_question (scenario_env (minutes 3)) (scenario_after (Suc 0))) =
     (scenario_after (Suc 0))
       \<lparr>progress :=
          \<lparr>current_question_index = 2,
           questions_asked =
             [\<lparr>q_question = ''Tell me about a project.'', q_type = ''behavioral'',
               q_difficulty = ''medium'', q_timestamp = 60000000, q_index = 0\<rparr>,
              \<lparr>q_question = ''Tell me about a project.'', q_type = ''behavioral'',
               q_difficulty = ''medium'', q_timestamp = 180000000, q_index = 1\<rparr>],
           responses_received =
             [\<lparr>r_response = [104, 105], r_question_index = 0, r_timestamp = 120000000,
               r_question_type = ''behavioral''\<rparr>],
           start_time = Some 0, last_activity = Some 120000000, state = QUESTIONING\<rparr>,
        current_question :=
          Some \<lparr>q_question = ''Tell me about a project.'', q_type = ''behavioral'',
                q_difficulty = ''medium'', q_timestamp = 180000000, q_index = 1\<rparr>,
        waiting_for_response := True,
        store_calls := store_calls (scenario_after (Suc 0)) @
          [(SaveProgress ''session-1''
              \<lparr>snap_current_question_index = 2,
               snap_questions_asked =
                 [\<lparr>q_question = ''Tell me about a project.'', q_type = ''behavioral'',
                   q_difficulty = ''medium'', q_timestamp = 60000000, q_index = 0\<rparr>,
                  \<lparr>q_question = ''Tell me about a project.'', q_type = ''behavioral'',
                   q_difficulty = ''medium'', q_timestamp = 180000000, q_index = 1\<rparr>],
               snap_responses_received =
                 [\<lparr>r_response = [104, 105], r_question_index = 0, r_timestamp = 120000000,
                   r_question_type = ''behavioral''\<rparr>],
               snap_state = QUESTIONING, snap_start_time = Some 0,
               snap_last_activity = Some 120000000, snap_updated_at = 180000000\<rparr>, None)]\<rparr>"
  by (simp add: scenario_after_1 ask_next_question_def should_continue_interview_def
      scenario_env_def scenario_config_def get_or_def Let_def send_data_message_def
      save_interview_progress_def minutes_def)

lemma scenario_after_2:
  "progress (scenario_after 2) =
     \<lparr>current_question_index = 2,
      questions_asked =
        [\<lparr>q_question = ''Tell me about a project.'', q_type = ''behavioral'',
          q_difficulty = ''medium'', q_timestamp = 60000000, q_index = 0\<rparr>,
         \<lparr>q_question = ''Tell me about a project.'', q_type = ''behavioral'',
          q_difficulty = ''medium'', q_timestamp = 180000000, q_index = 1\<rparr>],
      responses_received =
        [\<lparr>r_response = [104, 105], r_question_index = 0, r_timestamp = 120000000,
          r_question_type = ''behavioral''\<rparr>,
         \<lparr>r_response = [104, 105], r_question_index = 1, r_timestamp = 240000000,
          r_question_type = ''behavioral''\<rparr>],
      start_time = Some 0, last_activity = Some 240000000, state = EVALUATING\<rparr> \<and>
   room_participants (scenario_after 2) = {''candidate''} \<and>
   session_id (scenario_after 2) = ''session-1'' \<and>
   config (scenario_after 2) = scenario_config \<and>
   length (store_calls (scenario_after 2)) = 5 \<and>
   completed_writes (scenario_after 2) = 0"
proof -
  have two: "scenario_after 2 =
      snd (evaluate_response (scenario_env (minutes 4)) hi
        (snd (ask_next_question (scenario_env (minutes 3)) (scenario_after (Suc 0)))))"
    by (simp add: numeral_2_eq_2 scenario_after_Suc)
  show ?thesis
    unfolding two second_question
    by (simp add: scenario_after_1 evaluate_response_def py_strip_def py_isspace_def hi_def
        scenario_env_def Let_def send_data_message_def save_interview_progress_def minutes_def
        completed_writes_def)
qed

lemma completed_session:
  "snd (conclude_interview (scenario_env (minutes 3)) (scenario_after (Suc 0))) =
     (scenario_after (Suc 0))
       \<lparr>progress := (progress (scenario_after (Suc 0)))\<lparr>state := COMPLETED\<rparr>,
        store_calls := store_calls (scenario_after (Suc 0)) @
          [(CompleteSession ''session-1''
              (FinalFeedbackData \<lparr>ff_overall_rating = Some ''Good'',
                 ff_strengths = Some [''clear''], ff_improvements = None\<rparr>), None)]\<rparr>"
  by (simp add: conclude_interview_ok
      [where final = "\<lparr>ff_overall_rating = Some ''Good'', ff_strengths = Some [''clear''],
         ff_improvements = None\<rparr>"] scenario_env_def scenario_after_1)

section \<open>The claims\<close>

text \<open>
  Claim C1.  The continuation policy \<open>_should_continue_interview\<close>, which
  \<open>_ask_next_question\<close> evaluates first, with \<open>asked\<close> the number of questions asked,
  \<open>min_q\<close> the larger of the configured minimum and 3 and \<open>max_q\<close> the smaller of the
  configured maximum and the number of available questions: it says continue whenever
  \<open>asked < min_q\<close>, whatever the elapsed time; it says stop whenever \<open>asked\<close> has reached
  both \<open>min_q\<close> and \<open>max_q\<close>; in between it says continue exactly when the elapsed whole
  minutes are below 1.2 times the target duration.  With a minimum of 3 and a maximum of
  5 it continues for 0, 1 and 2 questions asked and stops at 5.  When it says stop, the
  call concludes the interview.  The question bank's count is assumed to return.
\<close>

theorem should_continue_interview_policy:
  assumes "get_total_available_questions e = Inr total_available"
    and "asked = int (length (questions_asked (progress a)))"
    and "min_q = max (get_or (cfg_min_questions (config a)) (MIN_QUESTIONS_PER_INTERVIEW e)) 3"
    and "max_q = min (get_or (cfg_max_questions (config a)) (MAX_QUESTIONS_PER_INTERVIEW e)) total_available"
    and "elapsed_minutes = get_interview_duration e a"
    and "target_minutes = get_or (cfg_duration (config a)) 30"
  shows "(asked < min_q \<longrightarrow> should_continue_interview e a = Inr True) \<and>
         (min_q \<le> asked \<and> max_q \<le> asked \<longrightarrow> should_continue_interview e a = Inr False) \<and>
         (min_q \<le> asked \<and> asked < max_q \<longrightarrow>
            should_continue_interview e a =
              Inr (real_of_int elapsed_minutes < real_of_int target_minutes * 1.2)) \<and>
         (cfg_min_questions (config a) = Some 3 \<and> cfg_max_questions (config a) = Some 5 \<longrightarrow>
            (asked \<in> {0, 1, 2} \<longrightarrow> should_continue_interview e a = Inr True) \<and>
            (asked = 5 \<longrightarrow> should_continue_interview e a = Inr False)) \<and>
         (should_continue_interview e a = Inr False \<longrightarrow>
            ask_next_question e a = conclude_interview e a)"
proof -
  have eq: "should_continue_interview e a =
      Inr (if asked < min_q then True else if max_q \<le> asked then False
           else real_of_int elapsed_minutes < real_of_int target_minutes * 1.2)"
    using assms by (simp add: should_continue_interview_def Let_def)
  have floor: "asked < min_q \<longrightarrow> should_continue_interview e a = Inr True"
    by (simp add: eq)
  have ceiling: "min_q \<le> asked \<and> max_q \<le> asked \<longrightarrow> should_continue_interview e a = Inr False"
    by (simp add: eq)
  have between: "min_q \<le> asked \<and> asked < max_q \<longrightarrow>
      should_continue_interview e a =
        Inr (real_of_int elapsed_minutes < real_of_int target_minutes * 1.2)"
    by (simp add: eq)
  have particular: "cfg_min_questions (config a) = Some 3 \<and> cfg_max_questions (config a) = Some 5 \<longrightarrow>
      (asked \<in> {0, 1, 2} \<longrightarrow> should_continue_interview e a = Inr True) \<and>
      (asked = 5 \<longrightarrow> should_continue_interview e a = Inr False)"
    using assms(3,4) by (auto simp add: eq get_or_def)
  have first: "should_continue_interview e a = Inr False \<longrightarrow>
      ask_next_question e a = conclude_interview e a"
    by (simp add: ask_next_question_def)
  from floor ceiling between particular first show ?thesis by blast
qed

theorem should_continue_interview_policy_witness:
  "should_continue_interview (scenario_env (minutes 500)) (asked_so_far 2) = Inr True \<and>
   should_continue_interview (scenario_env (minutes 35)) (asked_so_far 3) = Inr True \<and>
   should_continue_interview (scenario_env (minutes 36)) (asked_so_far 3) = Inr False \<and>
   should_continue_interview (scenario_env (minutes 11)) (asked_so_far 5) = Inr False"
proof -
  have available: "get_total_available_questions (scenario_env t) = Inr 5" for t
    by (simp add: scenario_env_def)
  have asked: "int n = int (length (questions_asked (progress (asked_so_far n))))" for n
    by (simp add: asked_so_far_def scenario_agent_def new_agent_def new_progress_def)
  have min_q: "3 = max (get_or (cfg_min_questions (config (asked_so_far n)))
      (MIN_QUESTIONS_PER_INTERVIEW (scenario_env t))) 3" for n t
    by (simp add: asked_so_far_def scenario_agent_def new_agent_def scenario_config_def
        get_or_def)
  have max_q: "5 = min (get_or (cfg_max_questions (config (asked_so_far n)))
      (MAX_QUESTIONS_PER_INTERVIEW (scenario_env t))) 5" for n t
    by (simp add: asked_so_far_def scenario_agent_def new_agent_def scenario_config_def
        get_or_def)
  have elapsed: "0 \<le> m \<Longrightarrow> m = get_interview_duration (scenario_env (minutes m)) (asked_so_far n)"
    for m n
    by (simp add: asked_so_far_def scenario_agent_def new_agent_def new_progress_def
        scenario_env_def get_interview_duration_def int_trunc_div_def minutes_def)
  have target: "30 = get_or (cfg_duration (config (asked_so_far n))) 30" for n
    by (simp add: asked_so_far_def scenario_agent_def new_agent_def scenario_config_def
        get_or_def)
  have floor: "should_continue_interview (scenario_env (minutes 500)) (asked_so_far 2) = Inr True"
    using should_continue_interview_policy
      [OF available asked min_q max_q elapsed target, of 500 2]
    by simp
  have between: "should_continue_interview (scenario_env (minutes 35)) (asked_so_far 3) = Inr True"
    using should_continue_interview_policy
      [OF available asked min_q max_q elapsed target, of 35 3]
    by simp
  have late: "should_continue_interview (scenario_env (minutes 36)) (asked_so_far 3) = Inr False"
    using should_continue_interview_policy
      [OF available asked min_q max_q elapsed target, of 36 3]
    by simp
  have ceiling: "should_continue_interview (scenario_env (minutes 11)) (asked_so_far 5) = Inr False"
    using should_continue_interview_policy
      [OF available asked min_q max_q elapsed target, of 11 5]
    by simp
  from floor between late ceiling show ?thesis by simp
qed

text \<open>
  Claim C2, as the code has it.  \<open>_conclude_interview\<close> does not look at the state: a call
  made when the state is already \<open>COMPLETED\<close> asks the feedback generator again and issues
  a further \<open>complete_session\<close> call.  For two consecutive calls whose feedback generator
  returns, the progress after the second call is the progress after the first (state
  \<open>COMPLETED\<close>, every other field as before the first call), and the two calls add
  exactly two "completed" writes, each with the final feedback of its own call.
\<close>

theorem conclude_interview_twice:
  assumes "generate_final_feedback e1 (questions_asked (progress a))
             (responses_received (progress a)) (config a) (get_interview_duration e1 a) = Inr f1"
    and "generate_final_feedback e2 (questions_asked (progress a))
             (responses_received (progress a)) (config a) (get_interview_duration e2 a) = Inr f2"
    and "a1 = snd (conclude_interview e1 a)"
    and "a2 = snd (conclude_interview e2 a1)"
  shows "state (progress a1) = COMPLETED \<and>
         progress a1 = (progress a)\<lparr>state := COMPLETED\<rparr> \<and>
         progress a2 = progress a1 \<and>
         store_calls a2 = store_calls a @
           [(CompleteSession (session_id a) (FinalFeedbackData f1),
             complete_session e1 (session_id a) (FinalFeedbackData f1)),
            (CompleteSession (session_id a) (FinalFeedbackData f2),
             complete_session e2 (session_id a) (FinalFeedbackData f2))] \<and>
         completed_writes a2 = completed_writes a + 2"
proof -
  have first: "a1 = a\<lparr>progress := (progress a)\<lparr>state := COMPLETED\<rparr>,
      store_calls := store_calls a @
        [(CompleteSession (session_id a) (FinalFeedbackData f1),
          complete_session e1 (session_id a) (FinalFeedbackData f1))]\<rparr>"
    using assms(1,3) by (simp add: conclude_interview_ok)
  have again: "generate_final_feedback e2 (questions_asked (progress a1))
      (responses_received (progress a1)) (config a1) (get_interview_duration e2 a1) = Inr f2"
    using assms(2) by (simp add: first get_interview_duration_def)
  have second: "a2 = a1\<lparr>progress := (progress a1)\<lparr>state := COMPLETED\<rparr>,
      store_calls := store_calls a1 @
        [(CompleteSession (session_id a1) (FinalFeedbackData f2),
          complete_session e2 (session_id a1) (FinalFeedbackData f2))]\<rparr>"
    using again assms(4) by (simp add: conclude_interview_ok)
  show ?thesis
    by (simp add: second first completed_writes_def)
qed

theorem conclude_interview_twice_witness:
  "completed_writes (scenario_after 2) = 0 \<and>
   completed_writes (snd (conclude_interview (scenario_env (minutes 6))
     (snd (conclude_interview (scenario_env (minutes 5)) (scenario_after 2))))) = 2 \<and>
   state (progress (snd (conclude_interview (scenario_env (minutes 5)) (scenario_after 2)))) =
     COMPLETED"
  using conclude_interview_twice [of "scenario_env (minutes 5)" "scenario_after 2"
      "\<lparr>ff_overall_rating = Some ''Good'', ff_strengths = Some [''clear''], ff_improvements = None\<rparr>"
      "scenario_env (minutes 6)"
      "\<lparr>ff_overall_rating = Some ''Good'', ff_strengths = Some [''clear''], ff_improvements = None\<rparr>"
      "snd (conclude_interview (scenario_env (minutes 5)) (scenario_after 2))"
      "snd (conclude_interview (scenario_env (minutes 6))
         (snd (conclude_interview (scenario_env (minutes 5)) (scenario_after 2))))"]
  by (simp add: scenario_env_def scenario_after_2)

text \<open>
  Claim C2 as stated fails: after two rounds of the scenario, the first call completes
  the session with one "completed" write and the second call issues a second one.
\<close>

theorem conclude_interview_not_idempotent:
  "state (progress (snd (conclude_interview (scenario_env (minutes 5)) (scenario_after 2)))) =
     COMPLETED \<and>
   completed_writes (snd (conclude_interview (scenario_env (minutes 5)) (scenario_after 2))) = 1 \<and>
   completed_writes (snd (conclude_interview (scenario_env (minutes 6))
     (snd (conclude_interview (scenario_env (minutes 5)) (scenario_after 2))))) = 2"
proof -
  let ?f = "\<lparr>ff_overall_rating = Some ''Good'', ff_strengths = Some [''clear''],
             ff_improvements = None\<rparr>"
  let ?a1 = "(scenario_after 2)\<lparr>progress := (progress (scenario_after 2))\<lparr>state := COMPLETED\<rparr>,
        store_calls := store_calls (scenario_after 2) @
          [(CompleteSession ''session-1'' (FinalFeedbackData ?f), None)]\<rparr>"
  have first: "snd (conclude_interview (scenario_env (minutes 5)) (scenario_after 2)) = ?a1"
    by (simp add: conclude_interview_ok [where final = ?f] scenario_env_def scenario_after_2)
  have second: "snd (conclude_interview (scenario_env (minutes 6)) ?a1) =
      ?a1\<lparr>store_calls := store_calls ?a1 @
          [(CompleteSession ''session-1'' (FinalFeedbackData ?f), None)]\<rparr>"
    by (simp add: conclude_interview_ok [where final = ?f] scenario_env_def scenario_after_2)
  have none: "filter is_complete_session (store_calls (scenario_after 2)) = []"
    using scenario_after_2 by (simp add: completed_writes_def)
  show ?thesis
    by (simp add: first second completed_writes_def none)
qed

text \<open>
  Claim C3, as the code has it.  In a terminal state (\<open>COMPLETED\<close> or \<open>ERROR\<close>)
  \<open>_provide_hint\<close> and \<open>_handle_clarification\<close> leave the whole agent, and so every field
  of the progress, unchanged; \<open>_conclude_interview\<close> leaves the questions, the responses,
  the question index, the start time and the time of last activity unchanged and sets
  the state to \<open>CONCLUDING\<close>: the state it leaves is \<open>COMPLETED\<close> when the feedback
  generator returns and \<open>CONCLUDING\<close> when the feedback generator raises.  No tool tests
  for a terminal state.
\<close>

theorem terminal_state_operations:
  assumes "state (progress a) \<in> {COMPLETED, ERROR}"
    and "a' = snd (conclude_interview e a)"
  shows "snd (provide_hint a) = a \<and>
         snd (handle_clarification request a) = a \<and>
         questions_asked (progress a') = questions_asked (progress a) \<and>
         responses_received (progress a') = responses_received (progress a) \<and>
         current_question_index (progress a') = current_question_index (progress a) \<and>
         start_time (progress a') = start_time (progress a) \<and>
         last_activity (progress a') = last_activity (progress a) \<and>
         state (progress a') \<in> {CONCLUDING, COMPLETED} \<and>
         (\<forall>final. generate_final_feedback e (questions_asked (progress a))
              (responses_received (progress a)) (config a) (get_interview_duration e a) =
              Inr final \<longrightarrow>
            state (progress a') = COMPLETED) \<and>
         (\<forall>x. generate_final_feedback e (questions_asked (progress a))
              (responses_received (progress a)) (config a) (get_interview_duration e a) =
              Inl x \<longrightarrow>
            state (progress a') = CONCLUDING)"
proof -
  have hint: "snd (provide_hint a) = a"
    by (simp add: provide_hint_def split: option.splits)
  have clarify: "snd (handle_clarification request a) = a"
    by (simp add: handle_clarification_def split: option.splits)
  have completes: "\<forall>final. generate_final_feedback e (questions_asked (progress a))
        (responses_received (progress a)) (config a) (get_interview_duration e a) = Inr final \<longrightarrow>
      progress a' = (progress a)\<lparr>state := COMPLETED\<rparr>"
    using assms(2) by (simp add: conclude_interview_ok)
  have stalls: "\<forall>x. generate_final_feedback e (questions_asked (progress a))
        (responses_received (progress a)) (config a) (get_interview_duration e a) = Inl x \<longrightarrow>
      progress a' = (progress a)\<lparr>state := CONCLUDING\<rparr>"
    using assms(2) by (simp add: conclude_interview_failed)
  have conclude: "progress a' = (progress a)\<lparr>state := CONCLUDING\<rparr> \<or>
      progress a' = (progress a)\<lparr>state := COMPLETED\<rparr>"
  proof (cases "generate_final_feedback e (questions_asked (progress a))
      (responses_received (progress a)) (config a) (get_interview_duration e a)")
    case (Inl x)
    with stalls show ?thesis by simp
  next
    case (Inr final)
    with completes show ?thesis by simp
  qed
  from conclude have fields:
    "questions_asked (progress a') = questions_asked (progress a) \<and>
     responses_received (progress a') = responses_received (progress a) \<and>
     current_question_index (progress a') = current_question_index (progress a) \<and>
     start_time (progress a') = start_time (progress a) \<and>
     last_activity (progress a') = last_activity (progress a) \<and>
     state (progress a') \<in> {CONCLUDING, COMPLETED}"
    by auto
  from completes have succeeded:
    "\<forall>final. generate_final_feedback e (questions_asked (progress a))
        (responses_received (progress a)) (config a) (get_interview_duration e a) = Inr final \<longrightarrow>
      state (progress a') = COMPLETED"
    by simp
  from stalls have failed:
    "\<forall>x. generate_final_feedback e (questions_asked (progress a))
        (responses_received (progress a)) (config a) (get_interview_duration e a) = Inl x \<longrightarrow>
      state (progress a') = CONCLUDING"
    by simp
  from hint clarify fields succeeded failed show ?thesis by blast
qed

theorem terminal_state_operations_witness:
  "state (progress (snd (conclude_interview (scenario_env (minutes 3)) (scenario_after 1)))) =
     COMPLETED \<and>
   snd (provide_hint (snd (conclude_interview (scenario_env (minutes 3)) (scenario_after 1)))) =
     snd (conclude_interview (scenario_env (minutes 3)) (scenario_after 1)) \<and>
   length (questions_asked (progress (snd (conclude_interview (scenario_env (minutes 4))
     (snd (conclude_interview (scenario_env (minutes 3)) (scenario_after 1))))))) = 1 \<and>
   state (progress (snd (conclude_interview (scenario_env (minutes 4))
     (snd (conclude_interview (scenario_env (minutes 3)) (scenario_after 1)))))) = COMPLETED \<and>
   state (progress (snd (conclude_interview
     ((scenario_env (minutes 4))\<lparr>generate_final_feedback :=
        (\<lambda>qs rs cfg d. Inl (Exn ''TimeoutError'' ''feedback generator unavailable''))\<rparr>)
     (snd (conclude_interview (scenario_env (minutes 3)) (scenario_after 1)))))) = CONCLUDING"
proof -
  let ?a = "snd (conclude_interview (scenario_env (minutes 3)) (scenario_after (Suc 0)))"
  let ?down = "(scenario_env (minutes 4))\<lparr>generate_final_feedback :=
      (\<lambda>qs rs cfg d. Inl (Exn ''TimeoutError'' ''feedback generator unavailable''))\<rparr>"
  have completed: "state (progress ?a) = COMPLETED"
    by (simp add: completed_session)
  then have terminal: "state (progress ?a) \<in> {COMPLETED, ERROR}"
    by simp
  have one: "length (questions_asked (progress ?a)) = 1"
    unfolding completed_session by (simp add: scenario_after_1)
  have returns: "generate_final_feedback (scenario_env (minutes 4))
      (questions_asked (progress ?a)) (responses_received (progress ?a)) (config ?a)
      (get_interview_duration (scenario_env (minutes 4)) ?a) =
      Inr \<lparr>ff_overall_rating = Some ''Good'', ff_strengths = Some [''clear''],
           ff_improvements = None\<rparr>"
    by (simp add: scenario_env_def)
  have raises: "generate_final_feedback ?down
      (questions_asked (progress ?a)) (responses_received (progress ?a)) (config ?a)
      (get_interview_duration ?down ?a) =
      Inl (Exn ''TimeoutError'' ''feedback generator unavailable'')"
    by simp
  have again: "state (progress (snd (conclude_interview (scenario_env (minutes 4)) ?a))) =
      COMPLETED"
    using terminal_state_operations
      [OF terminal refl, where e = "scenario_env (minutes 4)" and request = "[]"] returns
    by blast
  have stalled: "state (progress (snd (conclude_interview ?down ?a))) = CONCLUDING"
    using terminal_state_operations [OF terminal refl, where e = ?down and request = "[]"] raises
    by blast
  show ?thesis
    using terminal_state_operations
      [OF terminal refl, where e = "scenario_env (minutes 4)" and request = "[]"]
      completed one again stalled
    by simp
qed

text \<open>
  Claim C3 as stated fails.  In the scenario concluded after one round (state
  \<open>COMPLETED\<close>) a response is accepted: it is appended, the time of last activity is set
  and the state becomes \<open>EVALUATING\<close>; a call of \<open>_ask_next_question\<close> asks a second
  question, raising the index to 2.  When the monitor's timeout request raises after the
  first round, \<open>entrypoint\<close> sets the state to \<open>ERROR\<close>; a later call of
  \<open>_conclude_interview\<close> sets it to \<open>COMPLETED\<close>.
\<close>

theorem terminal_state_is_mutated:
  "state (progress (snd (conclude_interview (scenario_env (minutes 3)) (scenario_after 1)))) =
     COMPLETED \<and>
   state (progress (snd (evaluate_response (scenario_env (minutes 4)) hi
     (snd (conclude_interview (scenario_env (minutes 3)) (scenario_after 1)))))) = EVALUATING \<and>
   length (responses_received (progress (snd (evaluate_response (scenario_env (minutes 4)) hi
     (snd (conclude_interview (scenario_env (minutes 3)) (scenario_after 1))))))) = 2 \<and>
   last_activity (progress (snd (evaluate_response (scenario_env (minutes 4)) hi
     (snd (conclude_interview (scenario_env (minutes 3)) (scenario_after 1)))))) =
     Some (minutes 4) \<and>
   state (progress (snd (ask_next_question (scenario_env (minutes 4))
     (snd (conclude_interview (scenario_env (minutes 3)) (scenario_after 1)))))) = QUESTIONING \<and>
   current_question_index (progress (snd (ask_next_question (scenario_env (minutes 4))
     (snd (conclude_interview (scenario_env (minutes 3)) (scenario_after 1)))))) = 2 \<and>
   length (questions_asked (progress (snd (ask_next_question (scenario_env (minutes 4))
     (snd (conclude_interview (scenario_env (minutes 3)) (scenario_after 1))))))) = 2 \<and>
   state (progress (monitor_wake
     ((scenario_env (minutes 36))\<lparr>generate_reply :=
        (\<lambda>r. Some (Exn ''RuntimeError'' ''session closed''))\<rparr>)
     (scenario_after 1))) = ERROR \<and>
   state (progress (snd (conclude_interview (scenario_env (minutes 37))
     (monitor_wake
        ((scenario_env (minutes 36))\<lparr>generate_reply :=
           (\<lambda>r. Some (Exn ''RuntimeError'' ''session closed''))\<rparr>)
        (scenario_after 1))))) = COMPLETED"
proof -
  have submit: "state (progress (snd (evaluate_response (scenario_env (minutes 4)) hi
      (snd (conclude_interview (scenario_env (minutes 3)) (scenario_after (Suc 0))))))) = EVALUATING \<and>
    length (responses_received (progress (snd (evaluate_response (scenario_env (minutes 4)) hi
      (snd (conclude_interview (scenario_env (minutes 3)) (scenario_after (Suc 0)))))))) = 2 \<and>
    last_activity (progress (snd (evaluate_response (scenario_env (minutes 4)) hi
      (snd (conclude_interview (scenario_env (minutes 3)) (scenario_after (Suc 0))))))) =
      Some (minutes 4)"
    unfolding completed_session
    by (simp add: scenario_after_1 evaluate_response_def py_strip_def py_isspace_def hi_def
        scenario_env_def Let_def send_data_message_def save_interview_progress_def)
  have ask: "state (progress (snd (ask_next_question (scenario_env (minutes 4))
      (snd (conclude_interview (scenario_env (minutes 3)) (scenario_after (Suc 0))))))) = QUESTIONING \<and>
    current_question_index (progress (snd (ask_next_question (scenario_env (minutes 4))
      (snd (conclude_interview (scenario_env (minutes 3)) (scenario_after (Suc 0))))))) = 2 \<and>
    length (questions_asked (progress (snd (ask_next_question (scenario_env (minutes 4))
      (snd (conclude_interview (scenario_env (minutes 3)) (scenario_after (Suc 0)))))))) = 2"
    unfolding completed_session
    by (simp add: scenario_after_1 ask_next_question_def should_continue_interview_def
        scenario_env_def scenario_config_def get_or_def Let_def send_data_message_def
        save_interview_progress_def)
  have failed: "monitor_wake
      ((scenario_env (minutes 36))\<lparr>generate_reply :=
         (\<lambda>r. Some (Exn ''RuntimeError'' ''session closed''))\<rparr>)
      (scenario_after (Suc 0)) =
      (scenario_after (Suc 0))
        \<lparr>progress := (progress (scenario_after (Suc 0)))\<lparr>state := ERROR\<rparr>,
         monitor_requests := [TimeoutReached],
         entrypoint_st := Raised (Exn ''RuntimeError'' ''session closed'')\<rparr>"
    by (simp add: monitor_wake_def request_reply_def entrypoint_failed_def
        handle_agent_error_id scenario_env_def scenario_after_1 scenario_config_def get_or_def
        minutes_def Let_def)
  have conclude: "state (progress (snd (conclude_interview (scenario_env (minutes 37))
      (monitor_wake
         ((scenario_env (minutes 36))\<lparr>generate_reply :=
            (\<lambda>r. Some (Exn ''RuntimeError'' ''session closed''))\<rparr>)
         (scenario_after (Suc 0)))))) = COMPLETED"
    unfolding failed
    by (simp add: conclude_interview_ok
        [where final = "\<lparr>ff_overall_rating = Some ''Good'', ff_strengths = Some [''clear''],
           ff_improvements = None\<rparr>"] scenario_env_def)
  show ?thesis
    using submit ask conclude by (simp add: completed_session failed)
qed

text \<open>
  Claim C4, as the code has it.  \<open>_evaluate_response\<close> is a no-op on the whole agent,
  and returns the "I didn't catch your response" text, whenever no question has been
  asked yet (the current question is unset) or the text is empty or all white space.
  The guard is the current question and not the state: once a question has been asked,
  a text that is not blank is accepted in every state, which appends one response, sets
  the time of last activity and makes the state \<open>EVALUATING\<close>.  A response that arrives
  as a data message is dropped, without any reply, when its text is empty or no response
  is awaited.
\<close>

theorem evaluate_response_guard:
  "(current_question a = None \<or> list_all py_isspace response \<longrightarrow>
      evaluate_response e response a = (DidntCatch, a)) \<and>
   (current_question a \<noteq> None \<and> \<not> list_all py_isspace response \<longrightarrow>
      fst (evaluate_response e response a) \<noteq> DidntCatch \<and>
      length (responses_received (progress (snd (evaluate_response e response a)))) =
        length (responses_received (progress a)) + 1 \<and>
      last_activity (progress (snd (evaluate_response e response a))) = Some (now e) \<and>
      state (progress (snd (evaluate_response e response a))) = EVALUATING) \<and>
   (response = [] \<or> \<not> waiting_for_response a \<longrightarrow>
      handle_data_message e (ResponseSubmitted response) a = a)"
proof -
  have rejected: "current_question a = None \<or> list_all py_isspace response \<longrightarrow>
      evaluate_response e response a = (DidntCatch, a)"
    by (auto simp add: evaluate_response_def py_strip_Nil split: option.splits)
  have accepted: "current_question a \<noteq> None \<and> \<not> list_all py_isspace response \<longrightarrow>
      fst (evaluate_response e response a) \<noteq> DidntCatch \<and>
      length (responses_received (progress (snd (evaluate_response e response a)))) =
        length (responses_received (progress a)) + 1 \<and>
      last_activity (progress (snd (evaluate_response e response a))) = Some (now e) \<and>
      state (progress (snd (evaluate_response e response a))) = EVALUATING"
    by (auto simp add: evaluate_response_def py_strip_Nil Let_def send_data_message_def
        save_interview_progress_def split: option.splits sum.splits)
  have channel: "response = [] \<or> \<not> waiting_for_response a \<longrightarrow>
      handle_data_message e (ResponseSubmitted response) a = a"
    by (simp add: handle_data_message_def)
  from rejected accepted channel show ?thesis by blast
qed

theorem evaluate_response_guard_witness:
  "evaluate_response (scenario_env (minutes 1)) hi (scenario_after 0) = (DidntCatch, scenario_after 0) \<and>
   evaluate_response (scenario_env (minutes 3)) [32, 9] (scenario_after 1) = (DidntCatch, scenario_after 1) \<and>
   handle_data_message (scenario_env (minutes 3)) (ResponseSubmitted hi) (scenario_after 1) = scenario_after 1"
proof -
  have none: "current_question (scenario_after 0) = None"
    by (simp add: scenario_after_0)
  have blank: "list_all py_isspace [32, 9]"
    by (simp add: py_isspace_def)
  have idle: "\<not> waiting_for_response (scenario_after 1)"
    by (simp add: scenario_after_1)
  show ?thesis
    using evaluate_response_guard [of "scenario_after 0" hi "scenario_env (minutes 1)"]
      evaluate_response_guard [of "scenario_after 1" "[32, 9]" "scenario_env (minutes 3)"]
      evaluate_response_guard [of "scenario_after 1" hi "scenario_env (minutes 3)"]
      none blank idle
    by simp
qed

text \<open>
  Claim C4 as stated fails: after the first round the state is \<open>EVALUATING\<close>, not
  \<open>QUESTIONING\<close>, and a further response is accepted, evaluated and recorded as a second
  response, moving the time of last activity.
\<close>

theorem evaluate_response_accepts_outside_questioning:
  "state (progress (scenario_after 1)) = EVALUATING \<and>
   fst (evaluate_response (scenario_env (minutes 3)) hi (scenario_after 1)) = Feedback ''Good answer.'' \<and>
   length (responses_received (progress (scenario_after 1))) = 1 \<and>
   length (responses_received (progress
     (snd (evaluate_response (scenario_env (minutes 3)) hi (scenario_after 1))))) = 2 \<and>
   last_activity (progress (scenario_after 1)) = Some (minutes 2) \<and>
   last_activity (progress
     (snd (evaluate_response (scenario_env (minutes 3)) hi (scenario_after 1)))) = Some (minutes 3)"
  by (simp add: scenario_after_1 evaluate_response_def py_strip_def py_isspace_def hi_def
      scenario_env_def Let_def send_data_message_def save_interview_progress_def minutes_def)

text \<open>
  Claim C5, as the code has it.  Every exception raised inside \<open>_ask_next_question\<close> is
  caught inside it.  When the continuation policy raises, or it says continue and the
  question bank raises, the call returns the apology and leaves the whole agent as it
  was.  An exception of \<open>save_progress\<close> is caught inside \<open>_save_interview_progress\<close>:
  whatever the interview service answers, the call returns the same reply and leaves the
  same progress.  The call never moves the state to \<open>ERROR\<close> and never touches the status
  of \<open>entrypoint\<close>, the only place where an exception is re-raised.
\<close>

theorem ask_next_question_catches_exceptions:
  "(state (progress (snd (ask_next_question e a))) = ERROR \<longrightarrow> state (progress a) = ERROR) \<and>
   entrypoint_st (snd (ask_next_question e a)) = entrypoint_st a \<and>
   ((\<exists>x. should_continue_interview e a = Inl x) \<or>
    (should_continue_interview e a = Inr True \<and>
     (\<exists>x. get_next_question e (current_question_index (progress a))
            (responses_received (progress a)) (user_resume a) = Inl x)) \<longrightarrow>
      ask_next_question e a = (Apology, a)) \<and>
   fst (ask_next_question (e\<lparr>save_progress := f\<rparr>) a) = fst (ask_next_question e a) \<and>
   progress (snd (ask_next_question (e\<lparr>save_progress := f\<rparr>) a)) =
     progress (snd (ask_next_question e a))"
proof -
  have no_error: "state (progress (snd (ask_next_question e a))) = ERROR \<longrightarrow>
      state (progress a) = ERROR"
    using ask_next_question_cases [of e a] conclude_interview_fields(6) [of e a]
    by (auto simp add: save_interview_progress_def Let_def)
  have caught: "(\<exists>x. should_continue_interview e a = Inl x) \<or>
      (should_continue_interview e a = Inr True \<and>
       (\<exists>x. get_next_question e (current_question_index (progress a))
              (responses_received (progress a)) (user_resume a) = Inl x)) \<longrightarrow>
      ask_next_question e a = (Apology, a)"
    by (auto simp add: ask_next_question_def)
  from no_error caught ask_next_question_save_progress [where e = e and f = f and a = a]
    ask_next_question_fields(5) [of e a]
  show ?thesis by blast
qed

theorem ask_next_question_catches_exceptions_witness:
  "ask_next_question (question_bank_down (minutes 3)) (scenario_after 1) =
     (Apology, scenario_after 1) \<and>
   state (progress (scenario_after 1)) = EVALUATING"
proof -
  have policy: "should_continue_interview (question_bank_down (minutes 3)) (scenario_after (Suc 0)) =
      Inr True"
    by (simp add: should_continue_interview_def question_bank_down_def scenario_env_def
        scenario_after_1 scenario_config_def get_or_def)
  have down: "\<exists>x. get_next_question (question_bank_down (minutes 3))
      (current_question_index (progress (scenario_after (Suc 0))))
      (responses_received (progress (scenario_after (Suc 0))))
      (user_resume (scenario_after (Suc 0))) = Inl x"
    by (simp add: question_bank_down_def)
  have evaluating: "state (progress (scenario_after (Suc 0))) = EVALUATING"
    by (simp add: scenario_after_1)
  show ?thesis
    using ask_next_question_catches_exceptions
      [of "question_bank_down (minutes 3)" "scenario_after (Suc 0)"] policy down evaluating
    by simp
qed

text \<open>
  Claim C5 as stated fails.  After the first round of the scenario, a call of
  \<open>_ask_next_question\<close> in which \<open>save_progress\<close> raises returns the question prompt; the
  state is \<open>QUESTIONING\<close>, the only call issued on the service is the failed
  \<open>save_progress\<close>, and \<open>entrypoint\<close> still sleeps in the monitor.  A call in which the
  question bank raises returns the apology and changes nothing.
\<close>

theorem ask_next_question_swallows_store_failure:
  "fst (ask_next_question (store_down (minutes 3)) (scenario_after 1)) =
     QuestionPrompt ''Tell me about a project.'' \<and>
   state (progress (snd (ask_next_question (store_down (minutes 3)) (scenario_after 1)))) =
     QUESTIONING \<and>
   snd (last (store_calls (snd (ask_next_question (store_down (minutes 3)) (scenario_after 1))))) =
     Some (Exn ''ConnectionError'' ''database unreachable'') \<and>
   length (store_calls (snd (ask_next_question (store_down (minutes 3)) (scenario_after 1)))) =
     length (store_calls (scenario_after 1)) + 1 \<and>
   entrypoint_st (snd (ask_next_question (store_down (minutes 3)) (scenario_after 1))) =
     MonitorSleeping 0 \<and>
   ask_next_question (question_bank_down (minutes 3)) (scenario_after 1) =
     (Apology, scenario_after 1) \<and>
   state (progress (scenario_after 1)) = EVALUATING"
proof -
  have policy: "should_continue_interview (store_down (minutes 3)) (scenario_after (Suc 0)) =
      Inr True"
    by (simp add: should_continue_interview_def store_down_def scenario_env_def
        scenario_after_1 scenario_config_def get_or_def)
  have asked: "ask_next_question (store_down (minutes 3)) (scenario_after (Suc 0)) =
      (QuestionPrompt ''Tell me about a project.'',
       save_interview_progress (store_down (minutes 3))
         ((scenario_after (Suc 0))\<lparr>progress := (progress (scenario_after (Suc 0)))
              \<lparr>questions_asked := questions_asked (progress (scenario_after (Suc 0))) @
                 [\<lparr>q_question = ''Tell me about a project.'', q_type = ''behavioral'',
                   q_difficulty = ''medium'', q_timestamp = minutes 3,
                   q_index = current_question_index (progress (scenario_after (Suc 0)))\<rparr>],
               current_question_index :=
                 current_question_index (progress (scenario_after (Suc 0))) + 1,
               state := QUESTIONING\<rparr>,
            current_question :=
              Some \<lparr>q_question = ''Tell me about a project.'', q_type = ''behavioral'',
                    q_difficulty = ''medium'', q_timestamp = minutes 3,
                    q_index = current_question_index (progress (scenario_after (Suc 0)))\<rparr>,
            waiting_for_response := True\<rparr>))"
    by (rule ask_next_question_asks [OF policy, where x = "(''question'', ''Tell me about a project.'')"
          and xs = "[(''type'', ''behavioral'')]"])
      (simp_all add: store_down_def scenario_env_def get_or_def)
  have store: "fst (ask_next_question (store_down (minutes 3)) (scenario_after (Suc 0))) =
        QuestionPrompt ''Tell me about a project.'' \<and>
      state (progress (snd (ask_next_question (store_down (minutes 3)) (scenario_after (Suc 0))))) =
        QUESTIONING \<and>
      snd (last (store_calls (snd (ask_next_question (store_down (minutes 3))
        (scenario_after (Suc 0)))))) = Some (Exn ''ConnectionError'' ''database unreachable'') \<and>
      length (store_calls (snd (ask_next_question (store_down (minutes 3))
        (scenario_after (Suc 0))))) = length (store_calls (scenario_after (Suc 0))) + 1 \<and>
      entrypoint_st (snd (ask_next_question (store_down (minutes 3)) (scenario_after (Suc 0)))) =
        MonitorSleeping 0"
    unfolding asked
    by (simp add: save_interview_progress_def Let_def store_down_def scenario_env_def
        scenario_after_1)
  have bank: "ask_next_question (question_bank_down (minutes 3)) (scenario_after (Suc 0)) =
      (Apology, scenario_after (Suc 0))"
    by (simp add: ask_next_question_def should_continue_interview_def question_bank_down_def
        scenario_env_def scenario_after_1 scenario_config_def get_or_def)
  have evaluating: "state (progress (scenario_after (Suc 0))) = EVALUATING"
    by (simp add: scenario_after_1)
  from store bank evaluating show ?thesis by simp
qed

text \<open>
  Claim C6 fails on the code.  \<open>_handle_early_exit\<close> builds the statistics of the early
  exit and hands them to \<open>_update_interview_status\<close> with the status \<open>"incomplete"\<close>, for
  which that function has no branch: no call reaches the interview service.  In the
  scenario, when the only participant leaves after two of five questions were asked and
  answered, the room is empty, the early exit leaves the agent as it is, and the calls
  issued on the service are the five issued before (one start and four snapshots).
\<close>

theorem early_exit_persists_nothing:
  "length (questions_asked (progress (scenario_after 2))) = 2 \<and>
   length (responses_received (progress (scenario_after 2))) = 2 \<and>
   room_participants (scenario_after 2) = {''candidate''} \<and>
   room_participants
     (step (scenario_env (minutes 5), ParticipantDisconnected ''candidate'') (scenario_after 2)) = {} \<and>
   handle_early_exit (scenario_env (minutes 5))
     ((scenario_after 2)\<lparr>room_participants := {}\<rparr>) = (scenario_after 2)\<lparr>room_participants := {}\<rparr> \<and>
   store_calls
     (step (scenario_env (minutes 5), ParticipantDisconnected ''candidate'') (scenario_after 2)) =
     store_calls (scenario_after 2) \<and>
   length (store_calls (scenario_after 2)) = 5 \<and>
   completed_writes (scenario_after 2) = 0"
  by (simp add: on_participant_disconnected_effect handle_early_exit_id scenario_after_2)

text \<open>
  Claim C7.  When a question is current, the response is not blank, and the response
  evaluator raises, or it returns and the feedback generator raises, then
  \<open>_evaluate_response\<close> returns the generic acknowledgement, the response record is the
  last element of \<open>responses_received\<close>, and the state is \<open>EVALUATING\<close>, not \<open>ERROR\<close>.
\<close>

theorem evaluator_failure_keeps_response:
  assumes "current_question a = Some q"
    and "\<not> list_all py_isspace response"
    and "n = Suc (length (responses_received (progress a)))"
    and "(\<exists>x. evaluate_response_svc e (q_question q) response (q_type q)
               (cfg_target_role (config a)) (cfg_experience_level (config a)) n = Inl x) \<or>
         (\<exists>ev x. evaluate_response_svc e (q_question q) response (q_type q)
               (cfg_target_role (config a)) (cfg_experience_level (config a)) n = Inr ev \<and>
             generate_response_feedback e ev (n \<le> 2) = Inl x)"
  shows "fst (evaluate_response e response a) = GenericAck \<and>
         responses_received (progress (snd (evaluate_response e response a))) =
           responses_received (progress a) @
             [\<lparr>r_response = response, r_question_index = q_index q, r_timestamp = now e,
               r_question_type = q_type q\<rparr>] \<and>
         state (progress (snd (evaluate_response e response a))) = EVALUATING \<and>
         state (progress (snd (evaluate_response e response a))) \<noteq> ERROR"
proof -
  have nonblank: "py_strip response \<noteq> []"
    using assms(2) by (simp add: py_strip_Nil)
  show ?thesis
    using assms(1,3,4) nonblank
    by (auto simp add: evaluate_response_def Let_def)
qed

theorem evaluator_failure_keeps_response_witness:
  "fst (evaluate_response (evaluator_down (minutes 4)) hi
          (snd (ask_next_question (scenario_env (minutes 3)) (scenario_after 1)))) = GenericAck \<and>
   length (responses_received (progress
     (snd (evaluate_response (evaluator_down (minutes 4)) hi
          (snd (ask_next_question (scenario_env (minutes 3)) (scenario_after 1))))))) = 2 \<and>
   state (progress
     (snd (evaluate_response (evaluator_down (minutes 4)) hi
          (snd (ask_next_question (scenario_env (minutes 3)) (scenario_after 1)))))) = EVALUATING"
proof -
  let ?a = "snd (ask_next_question (scenario_env (minutes 3)) (scenario_after (Suc 0)))"
  let ?q = "\<lparr>q_question = ''Tell me about a project.'', q_type = ''behavioral'',
            q_difficulty = ''medium'', q_timestamp = 180000000, q_index = 1\<rparr>"
  have outstanding: "current_question ?a = Some ?q"
    by (simp add: second_question)
  have nonblank: "\<not> list_all py_isspace hi"
    by (simp add: hi_def py_isspace_def)
  have count: "2 = Suc (length (responses_received (progress ?a)))"
    by (simp add: second_question)
  have down: "\<exists>x. evaluate_response_svc (evaluator_down (minutes 4)) (q_question ?q) hi (q_type ?q)
      (cfg_target_role (config ?a)) (cfg_experience_level (config ?a)) 2 = Inl x"
    by (simp add: evaluator_down_def)
  show ?thesis
    using evaluator_failure_keeps_response [OF outstanding nonblank count disjI1 [OF down]]
    by (simp add: second_question)
qed

text \<open>
  Claim C8.  In every state that a sequence of events reaches from a new agent, the
  number of questions asked equals \<open>current_question_index\<close> and the records carry the
  indices 0, 1, 2, ... in order.  No event lowers the index or raises it by more than 1,
  and every event keeps the questions asked so far as a prefix.  A call of
  \<open>_ask_next_question\<close> that asks a question (it returns the question prompt) raises the
  index, and the number of questions asked, by exactly 1.  The statement is about the
  states between handlers: inside \<open>_ask_next_question\<close> the record is appended three
  assignments before the index is raised, with no suspension point in between.
\<close>

theorem question_index_invariant:
  assumes "a = run evs (new_agent sid cfg resume)"
  shows "int (length (questions_asked (progress a))) = current_question_index (progress a) \<and>
         map q_index (questions_asked (progress a)) =
           map int [0..<length (questions_asked (progress a))] \<and>
         current_question_index (progress a) \<le> current_question_index (progress (step ev a)) \<and>
         current_question_index (progress (step ev a)) \<le> current_question_index (progress a) + 1 \<and>
         take (length (questions_asked (progress a))) (questions_asked (progress (step ev a))) =
           questions_asked (progress a) \<and>
         (\<forall>t. fst (ask_next_question e a) = QuestionPrompt t \<longrightarrow>
            current_question_index (progress (snd (ask_next_question e a))) =
              current_question_index (progress a) + 1 \<and>
            length (questions_asked (progress (snd (ask_next_question e a)))) =
              length (questions_asked (progress a)) + 1)"
proof -
  have start: "int (length (questions_asked (progress (new_agent sid cfg resume)))) =
        current_question_index (progress (new_agent sid cfg resume)) \<and>
      map q_index (questions_asked (progress (new_agent sid cfg resume))) =
        map int [0..<length (questions_asked (progress (new_agent sid cfg resume)))]"
    by (simp add: new_agent_def new_progress_def)
  have indexed: "int (length (questions_asked (progress a))) = current_question_index (progress a) \<and>
      map q_index (questions_asked (progress a)) =
        map int [0..<length (questions_asked (progress a))]"
    unfolding assms
    by (rule run_invariant [where P = "\<lambda>b. int (length (questions_asked (progress b))) =
          current_question_index (progress b) \<and>
          map q_index (questions_asked (progress b)) =
            map int [0..<length (questions_asked (progress b))]", OF start])
      (rule step_questions_indexed)
  have monotone: "current_question_index (progress a) \<le> current_question_index (progress (step ev a)) \<and>
      current_question_index (progress (step ev a)) \<le> current_question_index (progress a) + 1 \<and>
      take (length (questions_asked (progress a))) (questions_asked (progress (step ev a))) =
        questions_asked (progress a)"
    using step_questions_asked [of ev a] by auto
  have asked: "\<forall>t. fst (ask_next_question e a) = QuestionPrompt t \<longrightarrow>
      current_question_index (progress (snd (ask_next_question e a))) =
        current_question_index (progress a) + 1 \<and>
      length (questions_asked (progress (snd (ask_next_question e a)))) =
        length (questions_asked (progress a)) + 1"
    using ask_next_question_cases [of e a]
    by (auto simp add: conclude_interview_fields save_interview_progress_def Let_def)
  from indexed monotone asked show ?thesis by blast
qed

theorem question_index_invariant_witness:
  "current_question_index (progress (scenario_after 2)) = 2 \<and>
   map q_index (questions_asked (progress (scenario_after 2))) = [0, 1] \<and>
   fst (ask_next_question (scenario_env (minutes 5)) (scenario_after 2)) =
     QuestionPrompt ''Tell me about a project.'' \<and>
   current_question_index
     (progress (snd (ask_next_question (scenario_env (minutes 5)) (scenario_after 2)))) = 3"
proof -
  have prompt: "fst (ask_next_question (scenario_env (minutes 5)) (scenario_after 2)) =
      QuestionPrompt ''Tell me about a project.''"
    by (simp add: ask_next_question_asks
        [where x = "(''question'', ''Tell me about a project.'')"
           and xs = "[(''type'', ''behavioral'')]" and t = "''Tell me about a project.''"
           and ty = "''behavioral''"]
        should_continue_interview_def scenario_env_def scenario_after_2 scenario_config_def
        get_or_def)
  have two: "current_question_index (progress (scenario_after 2)) = 2 \<and>
      map q_index (questions_asked (progress (scenario_after 2))) = [0, 1]"
    by (simp add: scenario_after_2)
  show ?thesis
    using question_index_invariant
      [of "scenario_after 2" "scenario_start @ scenario_rounds 2" "''session-1''" scenario_config
        None "(scenario_env (minutes 5), AskNextQuestion)" "scenario_env (minutes 5)"]
      prompt two
    by (simp add: scenario_after_def scenario_agent_def)
qed

text \<open>
  Claim C9.  One iteration of the monitor loop, entered while \<open>entrypoint\<close> sleeps in the
  loop with the captured start time \<open>st\<close>: the timeout request is issued exactly when the
  time since \<open>st\<close> exceeds the configured duration plus 5 minutes; the inactivity
  request is issued exactly when there is no timeout, \<open>last_activity\<close> is set and lies
  more than 10 minutes back; nothing else is requested; after a request the loop has
  ended; without a request the loop ends exactly when the state is \<open>COMPLETED\<close> or
  \<open>ERROR\<close> and sleeps again otherwise.  An accepted response sets \<open>last_activity\<close> to its
  instant, so an iteration at most 10 minutes after it issues no inactivity request.  The
  30 seconds of the sleep are not part of the model: the instant of each iteration is an
  input.
\<close>

theorem monitor_wake_triggers:
  assumes "entrypoint_st a = MonitorSleeping st"
    and "max_duration = minutes (get_or (cfg_duration (config a)) 30 + 5)"
    and "a' = monitor_wake e a"
  shows "(monitor_requests a' = monitor_requests a @ [TimeoutReached] \<longleftrightarrow>
            now e - st > max_duration) \<and>
         (monitor_requests a' = monitor_requests a @ [CandidateInactive] \<longleftrightarrow>
            \<not> now e - st > max_duration \<and>
            (\<exists>la. last_activity (progress a) = Some la \<and> now e - la > minutes 10)) \<and>
         (monitor_requests a' = monitor_requests a \<or>
          monitor_requests a' = monitor_requests a @ [TimeoutReached] \<or>
          monitor_requests a' = monitor_requests a @ [CandidateInactive]) \<and>
         (monitor_requests a' \<noteq> monitor_requests a \<longrightarrow>
            (\<forall>t. entrypoint_st a' \<noteq> MonitorSleeping t)) \<and>
         (monitor_requests a' = monitor_requests a \<longrightarrow>
            (state (progress a) \<in> {COMPLETED, ERROR} \<longrightarrow> entrypoint_st a' = Returned) \<and>
            (state (progress a) \<notin> {COMPLETED, ERROR} \<longrightarrow> entrypoint_st a' = MonitorSleeping st)) \<and>
         (\<forall>e0 a0 r. a = snd (evaluate_response e0 r a0) \<and> current_question a0 \<noteq> None \<and>
            \<not> list_all py_isspace r \<and> now e - now e0 \<le> minutes 10 \<longrightarrow>
            monitor_requests a' \<noteq> monitor_requests a @ [CandidateInactive])"
proof -
  note cases = monitor_wake_cases [OF assms(1), of e, folded assms(2) assms(3)]
  have timeout: "monitor_requests a' = monitor_requests a @ [TimeoutReached] \<longleftrightarrow>
      now e - st > max_duration"
    using cases by (auto simp add: request_reply_fields monitor_loop_head_fields)
  have inactive: "monitor_requests a' = monitor_requests a @ [CandidateInactive] \<longleftrightarrow>
      \<not> now e - st > max_duration \<and>
      (\<exists>la. last_activity (progress a) = Some la \<and> now e - la > minutes 10)"
    using cases by (auto simp add: request_reply_fields monitor_loop_head_fields)
  have only: "monitor_requests a' = monitor_requests a \<or>
      monitor_requests a' = monitor_requests a @ [TimeoutReached] \<or>
      monitor_requests a' = monitor_requests a @ [CandidateInactive]"
    using cases by (auto simp add: request_reply_fields monitor_loop_head_fields)
  have stops: "monitor_requests a' \<noteq> monitor_requests a \<longrightarrow>
      (\<forall>t. entrypoint_st a' \<noteq> MonitorSleeping t)"
    using cases by (auto simp add: request_reply_fields monitor_loop_head_fields)
  have ticks: "monitor_requests a' = monitor_requests a \<longrightarrow>
      (state (progress a) \<in> {COMPLETED, ERROR} \<longrightarrow> entrypoint_st a' = Returned) \<and>
      (state (progress a) \<notin> {COMPLETED, ERROR} \<longrightarrow> entrypoint_st a' = MonitorSleeping st)"
    using cases by (auto simp add: request_reply_fields monitor_loop_head_fields)
  have reset: "\<forall>e0 a0 r. a = snd (evaluate_response e0 r a0) \<and> current_question a0 \<noteq> None \<and>
      \<not> list_all py_isspace r \<and> now e - now e0 \<le> minutes 10 \<longrightarrow>
      monitor_requests a' \<noteq> monitor_requests a @ [CandidateInactive]"
  proof (intro allI impI)
    fix e0 a0 r
    assume h: "a = snd (evaluate_response e0 r a0) \<and> current_question a0 \<noteq> None \<and>
      \<not> list_all py_isspace r \<and> now e - now e0 \<le> minutes 10"
    then have "last_activity (progress a) = Some (now e0)"
      using evaluate_response_accepted [of a0 r e0] by simp
    with h inactive show "monitor_requests a' \<noteq> monitor_requests a @ [CandidateInactive]"
      by auto
  qed
  from timeout inactive only stops ticks reset show ?thesis by blast
qed

theorem monitor_wake_triggers_witness:
  "monitor_requests (monitor_wake (scenario_env (minutes 13)) (scenario_after 1)) =
     [CandidateInactive] \<and>
   entrypoint_st (monitor_wake (scenario_env (minutes 13)) (scenario_after 1)) = Returned \<and>
   monitor_requests (monitor_wake (scenario_env (minutes 12)) (scenario_after 1)) = [] \<and>
   entrypoint_st (monitor_wake (scenario_env (minutes 12)) (scenario_after 1)) =
     MonitorSleeping 0 \<and>
   monitor_requests (monitor_wake (scenario_env (minutes 36)) (scenario_after 1)) =
     [TimeoutReached]"
proof -
  have sleeping: "entrypoint_st (scenario_after (Suc 0)) = MonitorSleeping 0"
    by (simp add: scenario_after_1)
  have limit: "minutes 35 = minutes (get_or (cfg_duration (config (scenario_after (Suc 0)))) 30 + 5)"
    by (simp add: scenario_after_1 scenario_config_def get_or_def)
  have facts: "monitor_requests (scenario_after (Suc 0)) = [] \<and>
      last_activity (progress (scenario_after (Suc 0))) = Some (minutes 2) \<and>
      state (progress (scenario_after (Suc 0))) = EVALUATING"
    by (simp add: scenario_after_1 minutes_def)
  have clock: "now (scenario_env t) = t" for t
    by (simp add: scenario_env_def)
  have inactive: "monitor_requests (monitor_wake (scenario_env (minutes 13))
      (scenario_after (Suc 0))) = [CandidateInactive]"
    using monitor_wake_triggers [OF sleeping limit refl, of "scenario_env (minutes 13)"] facts
    by (simp add: clock minutes_def)
  have returned: "entrypoint_st (monitor_wake (scenario_env (minutes 13)) (scenario_after (Suc 0))) =
      Returned"
    by (simp add: monitor_wake_def request_reply_def scenario_env_def scenario_after_1
        scenario_config_def get_or_def minutes_def Let_def)
  have quiet: "monitor_requests (monitor_wake (scenario_env (minutes 12))
        (scenario_after (Suc 0))) = [] \<and>
      entrypoint_st (monitor_wake (scenario_env (minutes 12)) (scenario_after (Suc 0))) =
        MonitorSleeping 0"
    using monitor_wake_triggers [OF sleeping limit refl, of "scenario_env (minutes 12)"] facts
    by (auto simp add: clock minutes_def)
  have timeout: "monitor_requests (monitor_wake (scenario_env (minutes 36))
      (scenario_after (Suc 0))) = [TimeoutReached]"
    using monitor_wake_triggers [OF sleeping limit refl, of "scenario_env (minutes 36)"] facts
    by (simp add: clock minutes_def)
  from inactive returned quiet timeout show ?thesis by simp
qed

text \<open>
  Claim C10.  In every state that a sequence of events reaches from a new agent and in
  which no response has been accepted, \<open>last_activity\<close> is \<open>None\<close>, the monitor has issued
  no inactivity request, and an iteration of the monitor loop at any instant issues none:
  if it requests anything, it is the timeout.
\<close>

theorem no_inactivity_without_response:
  assumes "a = run evs (new_agent sid cfg resume)"
    and "responses_received (progress a) = []"
  shows "last_activity (progress a) = None \<and>
         CandidateInactive \<notin> set (monitor_requests a) \<and>
         CandidateInactive \<notin> set (monitor_requests (monitor_wake e a)) \<and>
         (monitor_requests (monitor_wake e a) \<noteq> monitor_requests a \<longrightarrow>
            monitor_requests (monitor_wake e a) = monitor_requests a @ [TimeoutReached])"
proof -
  have start: "responses_received (progress (new_agent sid cfg resume)) = [] \<longrightarrow>
      last_activity (progress (new_agent sid cfg resume)) = None \<and>
      CandidateInactive \<notin> set (monitor_requests (new_agent sid cfg resume))"
    by (simp add: new_agent_def new_progress_def)
  have "responses_received (progress a) = [] \<longrightarrow>
      last_activity (progress a) = None \<and> CandidateInactive \<notin> set (monitor_requests a)"
    unfolding assms(1)
    by (rule run_invariant [where P = "\<lambda>b. responses_received (progress b) = [] \<longrightarrow>
          last_activity (progress b) = None \<and> CandidateInactive \<notin> set (monitor_requests b)",
          OF start])
      (rule step_no_inactivity)
  with assms(2) have silent: "last_activity (progress a) = None \<and>
      CandidateInactive \<notin> set (monitor_requests a)"
    by simp
  from monitor_wake_no_inactivity [of a e] silent show ?thesis
    by auto
qed

theorem no_inactivity_without_response_witness:
  "responses_received (progress silent_session) = [] \<and>
   last_activity (progress silent_session) = None \<and>
   CandidateInactive \<notin> set (monitor_requests (monitor_wake (scenario_env (minutes 34)) silent_session))"
proof -
  have silent: "responses_received (progress silent_session) = []"
    by (simp add: silent_session_def run_append scenario_after_0 [unfolded scenario_after_def, simplified]
        ask_next_question_fields)
  show ?thesis
    using no_inactivity_without_response
      [OF _ silent, of "scenario_start @ [(scenario_env (minutes 1), AskNextQuestion)]"
        "''session-1''" scenario_config None "scenario_env (minutes 34)"] silent
    by (simp add: silent_session_def scenario_agent_def)
qed

end
